theory Spec2Isabelle
  imports Complex_Main
begin

section \<open>Python values, exceptions and sequencing\<close>

text \<open>
  The modules of \<^verbatim>\<open>model/modules.py\<close> are PyTorch modules. Every raise of the source,
  of Python itself or of the tensor library is a value of \<open>error\<close>; a call that may raise
  returns \<open>error + 'a\<close>, and \<open>bindE\<close> runs the next statement only when the previous one
  returned.
\<close>

datatype error =
    AssertionError | AttributeError | TypeError | ValueError
  | IndexError | ZeroDivisionError | RuntimeError | EinopsError

definition bindE :: "error + 'a \<Rightarrow> ('a \<Rightarrow> error + 'b) \<Rightarrow> error + 'b" where
  "bindE m f = (case m of Inl e \<Rightarrow> Inl e | Inr x \<Rightarrow> f x)"

definition py_assert :: "bool \<Rightarrow> error + unit" where
  "py_assert b = (if b then Inr () else Inl AssertionError)"

definition floordiv :: "nat \<Rightarrow> nat \<Rightarrow> error + nat" where
  \<comment> \<open>Python's \<^verbatim>\<open>a // b\<close> on non-negative ints\<close>
  "floordiv a b = (if b = 0 then Inl ZeroDivisionError else Inr (a div b))"

section \<open>Tensors\<close>

text \<open>
  A tensor is its shape and its elements, read by multi-index. Elements are idealised as
  real numbers: no statement below depends on rounding.
\<close>

record tensor =
  shape :: "nat list"
  elem :: "nat list \<Rightarrow> real"

definition valid_index :: "nat list \<Rightarrow> nat list \<Rightarrow> bool" where
  "valid_index shp idx = list_all2 (\<lambda>i d. i < d) idx shp"

definition tensor_of_list :: "real list \<Rightarrow> tensor" where
  \<comment> \<open>\<^verbatim>\<open>torch.tensor([...])\<close>, one axis\<close>
  "tensor_of_list xs = \<lparr>shape = [length xs], elem = (\<lambda>idx. xs ! hd idx)\<rparr>"

definition shape_index :: "tensor \<Rightarrow> nat \<Rightarrow> error + nat" where
  \<comment> \<open>\<^verbatim>\<open>t.shape[i]\<close>\<close>
  "shape_index t i = (if i < length (shape t) then Inr (shape t ! i) else Inl IndexError)"

definition tmap :: "(real \<Rightarrow> real) \<Rightarrow> tensor \<Rightarrow> tensor" where
  "tmap f t = \<lparr>shape = shape t, elem = (\<lambda>idx. f (elem t idx))\<rparr>"

definition scalar_mul :: "tensor \<Rightarrow> real \<Rightarrow> tensor" where
  \<comment> \<open>\<^verbatim>\<open>t * s\<close> for a Python float \<^verbatim>\<open>s\<close>\<close>
  "scalar_mul t s = tmap (\<lambda>x. x * s) t"

subsection \<open>Broadcasting element-wise operations\<close>

fun broadcast_rev :: "nat list \<Rightarrow> nat list \<Rightarrow> nat list option" where
  "broadcast_rev [] ys = Some ys"
| "broadcast_rev xs [] = Some xs"
| "broadcast_rev (x # xs) (y # ys) =
     (if x = y \<or> y = 1 then map_option ((#) x) (broadcast_rev xs ys)
      else if x = 1 then map_option ((#) y) (broadcast_rev xs ys)
      else None)"

definition broadcast_shapes :: "nat list \<Rightarrow> nat list \<Rightarrow> nat list option" where
  \<comment> \<open>shapes are aligned at the last axis; sizes must agree or be 1\<close>
  "broadcast_shapes s1 s2 = map_option rev (broadcast_rev (rev s1) (rev s2))"

definition broadcast_index :: "nat list \<Rightarrow> nat list \<Rightarrow> nat list" where
  \<comment> \<open>the operand's index read for an index of the broadcast result\<close>
  "broadcast_index s idx =
     map2 (\<lambda>d i. if d = 1 then 0 else i) s (drop (length idx - length s) idx)"

definition elementwise :: "(real \<Rightarrow> real \<Rightarrow> real) \<Rightarrow> tensor \<Rightarrow> tensor \<Rightarrow> error + tensor" where
  "elementwise f a b =
     (case broadcast_shapes (shape a) (shape b) of
        None \<Rightarrow> Inl RuntimeError
      | Some shp \<Rightarrow>
          Inr \<lparr>shape = shp,
               elem = (\<lambda>idx. f (elem a (broadcast_index (shape a) idx))
                              (elem b (broadcast_index (shape b) idx)))\<rparr>)"

definition tensor_add :: "tensor \<Rightarrow> tensor \<Rightarrow> error + tensor" where
  "tensor_add = elementwise (+)"

definition tensor_mul :: "tensor \<Rightarrow> tensor \<Rightarrow> error + tensor" where
  "tensor_mul = elementwise (*)"

subsection \<open>\<^verbatim>\<open>Tensor.chunk(chunks, dim=-1)\<close>\<close>

definition slice_last :: "tensor \<Rightarrow> nat \<Rightarrow> nat \<Rightarrow> tensor" where
  \<comment> \<open>\<open>len\<close> entries of the last axis, starting at \<open>off\<close>\<close>
  "slice_last t off len =
     \<lparr>shape = butlast (shape t) @ [len],
      elem = (\<lambda>idx. elem t (butlast idx @ [last idx + off]))\<rparr>"

definition chunk :: "tensor \<Rightarrow> nat \<Rightarrow> error + tensor list" where
  \<comment> \<open>pieces of size \<open>ceil (d / chunks)\<close> along the last axis, the last one shorter; fewer
      than \<open>chunks\<close> pieces when the axis is too short; an empty axis gives \<open>chunks\<close> empty pieces\<close>
  "chunk t chunks =
     (if shape t = [] \<or> chunks = 0 then Inl RuntimeError
      else
        let d = last (shape t); split_size = (d + chunks - 1) div chunks in
        if split_size = 0 then Inr (replicate chunks (slice_last t 0 0))
        else Inr (map (\<lambda>i. slice_last t (i * split_size) (min split_size (d - i * split_size)))
                      [0 ..< (d + split_size - 1) div split_size]))"

subsection \<open>The tanh approximation of GELU\<close>

definition gelu_tanh :: "real \<Rightarrow> real" where
  "gelu_tanh x = 0.5 * x * (1 + tanh (sqrt (2 / pi) * (x + 0.044715 * x ^ 3)))"

subsection \<open>\<^verbatim>\<open>F.gelu(input, *, approximate='none')\<close>\<close>

text \<open>
  \<^verbatim>\<open>approximate\<close> is a keyword-only parameter: \<^verbatim>\<open>F.gelu\<close> takes one positional argument,
  and a call that passes more raises TypeError. \<open>more_positional\<close> holds the positional
  arguments of a call after the first, \<open>approximate\<close> the keyword argument (its default
  when the call gives none).
\<close>

definition erf :: "real \<Rightarrow> real" where
  "erf x = 2 / sqrt pi * (\<Sum>n. (- 1) ^ n * x ^ (2 * n + 1) / (fact n * real (2 * n + 1)))"

definition gelu_exact :: "real \<Rightarrow> real" where
  "gelu_exact x = x * (1 + erf (x / sqrt 2)) / 2"

definition F_gelu :: "tensor \<Rightarrow> string list \<Rightarrow> string \<Rightarrow> error + tensor" where
  "F_gelu input more_positional approximate =
     (if more_positional \<noteq> [] then Inl TypeError
      else if approximate = ''none'' then Inr (tmap gelu_exact input)
      else if approximate = ''tanh'' then Inr (tmap gelu_tanh input)
      else Inl RuntimeError)"

section \<open>The tensor library\<close>

text \<open>
  The operations of PyTorch and einops that the modules call, with the shape checks that
  make them raise. \<open>mask\<close> is what the random generator draws in one dropout call: for each
  element, whether it is kept. \<open>pyobj\<close> is what the source passes where a tensor is
  expected: a tensor, \<^verbatim>\<open>None\<close>, or the lazy object \<^verbatim>\<open>map(f, t)\<close> returns.
\<close>

type_synonym mask = "nat list \<Rightarrow> bool"

datatype pyobj = PyNone | PyTensor tensor | PyMap tensor

record runtime =
  functional_names :: "string list"
    \<comment> \<open>the names bound in \<^verbatim>\<open>torch.nn.functional\<close>\<close>
  module_names :: "string list"
    \<comment> \<open>the attributes every \<^verbatim>\<open>nn.Module\<close> inherits from its class\<close>
  class_call :: "string \<Rightarrow> pyobj list \<Rightarrow> error + pyobj"
    \<comment> \<open>calling such an inherited attribute with these arguments\<close>
  scaled_dot_product_attention :: "tensor \<Rightarrow> tensor \<Rightarrow> tensor \<Rightarrow> real \<Rightarrow> mask \<Rightarrow> error + tensor"
    \<comment> \<open>the fused kernel: query, key, value, \<^verbatim>\<open>dropout_p\<close> (\<^verbatim>\<open>is_causal=False\<close>)\<close>
  initial_weight :: "string \<Rightarrow> nat list \<Rightarrow> real"
    \<comment> \<open>the values a freshly constructed parameter of that name holds\<close>

definition hasattr_F :: "runtime \<Rightarrow> string \<Rightarrow> bool" where
  \<comment> \<open>\<^verbatim>\<open>hasattr(F, name)\<close>\<close>
  "hasattr_F rt name = (name \<in> set (functional_names rt))"

definition F_scaled_dot_product_attention ::
  "runtime \<Rightarrow> error + (tensor \<Rightarrow> tensor \<Rightarrow> tensor \<Rightarrow> real \<Rightarrow> mask \<Rightarrow> error + tensor)" where
  \<comment> \<open>the attribute access \<^verbatim>\<open>F.scaled_dot_product_attention\<close>\<close>
  "F_scaled_dot_product_attention rt =
     (if hasattr_F rt ''scaled_dot_product_attention''
      then Inr (scaled_dot_product_attention rt) else Inl AttributeError)"

subsection \<open>\<^verbatim>\<open>nn.Linear(in_features, out_features, bias=False)\<close>\<close>

record Linear =
  in_features :: nat
  out_features :: nat
  weight :: tensor

definition Linear_init :: "runtime \<Rightarrow> string \<Rightarrow> nat \<Rightarrow> nat \<Rightarrow> Linear" where
  "Linear_init rt name n_in n_out =
     \<lparr>in_features = n_in, out_features = n_out,
      weight = \<lparr>shape = [n_out, n_in], elem = initial_weight rt name\<rparr>\<rparr>"

definition F_linear :: "tensor \<Rightarrow> tensor \<Rightarrow> error + tensor" where
  "F_linear x w =
     (case shape w of
        [n_out, n_in] \<Rightarrow>
          if shape x \<noteq> [] \<and> last (shape x) = n_in
          then Inr \<lparr>shape = butlast (shape x) @ [n_out],
                    elem = (\<lambda>idx. \<Sum>k<n_in. elem x (butlast idx @ [k]) * elem w [last idx, k])\<rparr>
          else Inl RuntimeError
      | _ \<Rightarrow> Inl RuntimeError)"

definition Linear_forward :: "Linear \<Rightarrow> pyobj \<Rightarrow> error + tensor" where
  "Linear_forward self input =
     (case input of PyTensor x \<Rightarrow> F_linear x (weight self) | _ \<Rightarrow> Inl TypeError)"

subsection \<open>\<^verbatim>\<open>nn.LayerNorm(d)\<close>\<close>

record LayerNorm =
  normalized_shape :: nat
  ln_weight :: "nat \<Rightarrow> real"
  ln_bias :: "nat \<Rightarrow> real"
  ln_eps :: real

definition LayerNorm_init :: "nat \<Rightarrow> LayerNorm" where
  "LayerNorm_init d =
     \<lparr>normalized_shape = d, ln_weight = (\<lambda>_. 1), ln_bias = (\<lambda>_. 0), ln_eps = 1 / 100000\<rparr>"

definition LayerNorm_forward :: "LayerNorm \<Rightarrow> tensor \<Rightarrow> error + tensor" where
  "LayerNorm_forward self x =
     (let d = normalized_shape self in
      if shape x \<noteq> [] \<and> last (shape x) = d
      then Inr \<lparr>shape = shape x,
                elem = (\<lambda>idx.
                  let row = (\<lambda>j. elem x (butlast idx @ [j]));
                      mean = (\<Sum>j<d. row j) / real d;
                      var = (\<Sum>j<d. (row j - mean) ^ 2) / real d
                  in (elem x idx - mean) / sqrt (var + ln_eps self) * ln_weight self (last idx)
                     + ln_bias self (last idx))\<rparr>
      else Inl RuntimeError)"

subsection \<open>Dropout\<close>

definition F_dropout :: "tensor \<Rightarrow> real \<Rightarrow> bool \<Rightarrow> mask \<Rightarrow> error + tensor" where
  \<comment> \<open>\<^verbatim>\<open>F.dropout(input, p, training)\<close>: in training, a dropped element is 0 and a kept
      one is scaled by \<open>1 / (1 - p)\<close>; with \<open>p = 0\<close> every element is kept, with \<open>p = 1\<close> none\<close>
  "F_dropout x p training keep =
     (if p < 0 \<or> 1 < p then Inl ValueError
      else if training
      then Inr \<lparr>shape = shape x,
                elem = (\<lambda>idx. if p < 1 \<and> (p = 0 \<or> keep idx) then elem x idx / (1 - p) else 0)\<rparr>
      else Inr x)"

record Dropout =
  drop_p :: real
  drop_training :: bool

definition Dropout_init :: "real \<Rightarrow> error + Dropout" where
  "Dropout_init p =
     (if p < 0 \<or> 1 < p then Inl ValueError else Inr \<lparr>drop_p = p, drop_training = True\<rparr>)"

definition Dropout_forward :: "Dropout \<Rightarrow> mask \<Rightarrow> tensor \<Rightarrow> error + tensor" where
  "Dropout_forward self keep x = F_dropout x (drop_p self) (drop_training self) keep"

subsection \<open>\<^verbatim>\<open>Tensor.softmax(dim=-1)\<close>\<close>

definition softmax :: "tensor \<Rightarrow> tensor" where
  "softmax x =
     \<lparr>shape = shape x,
      elem = (\<lambda>idx. if idx = [] then 1
                     else exp (elem x idx) / (\<Sum>j<last (shape x). exp (elem x (butlast idx @ [j]))))\<rparr>"

subsection \<open>einops \<^verbatim>\<open>rearrange\<close>, one definition for each pattern of the source\<close>

definition rearrange_split_heads :: "tensor \<Rightarrow> nat \<Rightarrow> error + tensor" where
  \<comment> \<open>\<^verbatim>\<open>"b ... (h d) -> b h ... d"\<close>\<close>
  "rearrange_split_heads t h =
     (case shape t of
        [] \<Rightarrow> Inl EinopsError
      | b # rest \<Rightarrow>
          if rest \<noteq> [] \<and> h \<noteq> 0 \<and> last rest mod h = 0
          then let d = last rest div h in
               Inr \<lparr>shape = b # h # butlast rest @ [d],
                    elem = (\<lambda>idx. elem t (hd idx # butlast (drop 2 idx) @ [(idx ! 1) * d + last idx]))\<rparr>
          else Inl EinopsError)"

definition rearrange_merge_heads :: "tensor \<Rightarrow> error + tensor" where
  \<comment> \<open>\<^verbatim>\<open>"b h ... d -> b ... (h d)"\<close>\<close>
  "rearrange_merge_heads t =
     (case shape t of
        b # h # rest \<Rightarrow>
          if rest \<noteq> []
          then let d = last rest in
               Inr \<lparr>shape = b # butlast rest @ [h * d],
                    elem = (\<lambda>idx. elem t (hd idx # (last idx div d) # butlast (tl idx) @ [last idx mod d]))\<rparr>
          else Inl EinopsError
      | _ \<Rightarrow> Inl EinopsError)"

definition rearrange_bnp_hc :: "tensor \<Rightarrow> nat \<Rightarrow> error + tensor" where
  \<comment> \<open>\<^verbatim>\<open>'b n p (h c) -> b h n p c'\<close>\<close>
  "rearrange_bnp_hc t h =
     (case shape t of
        [b, n, p, hc] \<Rightarrow>
          if h \<noteq> 0 \<and> hc mod h = 0
          then let c = hc div h in
               Inr \<lparr>shape = [b, h, n, p, c],
                    elem = (\<lambda>idx. case idx of
                              [ib, ih, jn, ip, ic] \<Rightarrow> elem t [ib, jn, ip, ih * c + ic]
                            | _ \<Rightarrow> 0)\<rparr>
          else Inl EinopsError
      | _ \<Rightarrow> Inl EinopsError)"

definition rearrange_bhnpc :: "tensor \<Rightarrow> error + tensor" where
  \<comment> \<open>\<^verbatim>\<open>"b h n p c -> b n p (h c)"\<close>\<close>
  "rearrange_bhnpc t =
     (case shape t of
        [b, h, n, p, c] \<Rightarrow>
          Inr \<lparr>shape = [b, n, p, h * c],
               elem = (\<lambda>idx. case idx of
                         [ib, jn, ip, j] \<Rightarrow> elem t [ib, j div c, jn, ip, j mod c]
                       | _ \<Rightarrow> 0)\<rparr>
      | _ \<Rightarrow> Inl EinopsError)"

subsection \<open>\<^verbatim>\<open>torch.einsum\<close>, one definition for each equation of the source\<close>

definition contraction ::
  "nat list \<Rightarrow> nat \<Rightarrow> (nat list \<Rightarrow> nat \<Rightarrow> nat list) \<Rightarrow> (nat list \<Rightarrow> nat \<Rightarrow> nat list)
     \<Rightarrow> tensor \<Rightarrow> tensor \<Rightarrow> tensor" where
  \<comment> \<open>the sum over the contracted axis of the products of the two operands; an axis of
      size 1 is broadcast\<close>
  "contraction shp n ia ib a b =
     \<lparr>shape = shp,
      elem = (\<lambda>idx. \<Sum>j<n. elem a (broadcast_index (shape a) (ia idx j))
                           * elem b (broadcast_index (shape b) (ib idx j)))\<rparr>"

definition einsum_q_k :: "tensor \<Rightarrow> tensor \<Rightarrow> error + tensor" where
  \<comment> \<open>\<^verbatim>\<open>"b ... n d, b t d -> b ... n t"\<close>\<close>
  "einsum_q_k q k =
     (case shape k of
        [b', t, d'] \<Rightarrow>
          if 3 \<le> length (shape q)
          then (case broadcast_shapes [hd (shape q), last (shape q)] [b', d'] of
                  Some [bb, dd] \<Rightarrow>
                    Inr (contraction (bb # butlast (tl (shape q)) @ [t]) dd
                           (\<lambda>idx j. butlast idx @ [j]) (\<lambda>idx j. [hd idx, last idx, j]) q k)
                | _ \<Rightarrow> Inl RuntimeError)
          else Inl RuntimeError
      | _ \<Rightarrow> Inl RuntimeError)"

definition einsum_att_v :: "tensor \<Rightarrow> tensor \<Rightarrow> error + tensor" where
  \<comment> \<open>\<^verbatim>\<open>"b ... n t, b t d -> b ... n d"\<close>\<close>
  "einsum_att_v att v =
     (case shape v of
        [b', t', d] \<Rightarrow>
          if 3 \<le> length (shape att)
          then (case broadcast_shapes [hd (shape att), last (shape att)] [b', t'] of
                  Some [bb, tt] \<Rightarrow>
                    Inr (contraction (bb # butlast (tl (shape att)) @ [d]) tt
                           (\<lambda>idx j. butlast idx @ [j]) (\<lambda>idx j. [hd idx, j, last idx]) att v)
                | _ \<Rightarrow> Inl RuntimeError)
          else Inl RuntimeError
      | _ \<Rightarrow> Inl RuntimeError)"

definition einsum_bhnpc_bhnqc :: "tensor \<Rightarrow> tensor \<Rightarrow> error + tensor" where
  \<comment> \<open>\<^verbatim>\<open>"b h n p c, b h n q c -> b h n p q"\<close>\<close>
  "einsum_bhnpc_bhnqc q k =
     (case (shape q, shape k) of
        ([b, h, n, p, c], [b', h', n', q', c']) \<Rightarrow>
          (case broadcast_shapes [b, h, n, c] [b', h', n', c'] of
             Some [bb, hh, nn, cc] \<Rightarrow>
               Inr (contraction [bb, hh, nn, p, q'] cc
                      (\<lambda>idx j. butlast idx @ [j]) (\<lambda>idx j. take 3 idx @ [last idx, j]) q k)
           | _ \<Rightarrow> Inl RuntimeError)
      | _ \<Rightarrow> Inl RuntimeError)"

definition einsum_bhnpq_bhnqc :: "tensor \<Rightarrow> tensor \<Rightarrow> error + tensor" where
  \<comment> \<open>\<^verbatim>\<open>"b h n p q, b h n q c -> b h n p c"\<close>\<close>
  "einsum_bhnpq_bhnqc att v =
     (case (shape att, shape v) of
        ([b, h, n, p, q'], [b', h', n', q'', c]) \<Rightarrow>
          (case broadcast_shapes [b, h, n, q'] [b', h', n', q''] of
             Some [bb, hh, nn, qq] \<Rightarrow>
               Inr (contraction [bb, hh, nn, p, c] qq
                      (\<lambda>idx j. butlast idx @ [j]) (\<lambda>idx j. take 3 idx @ [j, last idx]) att v)
           | _ \<Rightarrow> Inl RuntimeError)
      | _ \<Rightarrow> Inl RuntimeError)"

section \<open>GEGLU\<close>

text \<open>
  \<^verbatim>\<open>
  class GEGLU(nn.Module):
      def forward(self, x):
          x, gate = x.chunk(2, dim=-1)
          return gate * F.gelu(x, 'tanh')
  \<close>
\<close>

definition unpack2 :: "'a list \<Rightarrow> error + 'a \<times> 'a" where
  \<comment> \<open>\<^verbatim>\<open>a, b = xs\<close>\<close>
  "unpack2 xs = (case xs of [a, b] \<Rightarrow> Inr (a, b) | _ \<Rightarrow> Inl ValueError)"

definition GEGLU_forward :: "tensor \<Rightarrow> error + tensor" where
  "GEGLU_forward x0 =
     bindE (chunk x0 2) (\<lambda>cs.
     bindE (unpack2 cs) (\<lambda>(x, gate).
     bindE (F_gelu x [''tanh''] ''none'') (\<lambda>g.
     tensor_mul gate g)))"

section \<open>MLP\<close>

text \<open>
  \<^verbatim>\<open>
  def __init__(self, emb_dim:int) -> None:
      inner_dim = int(emb_dim * 4 * 2/3)
      self.ln1 = nn.LayerNorm(emb_dim)
      self.proj1 = nn.Linear(emb_dim, inner_dim, bias=False)
      self.act = GEGLU()
      self.ln2 = nn.LayerNorm(inner_dim)
      self.proj2 = nn.Linear(inner_dim, emb_dim, bias=False)

  def forward(self, x):
      x = self.proj1(self.ln1(x))
      x = self.act(x)
      x = self.proj2(self.ln2(x))
      return x
  \<close>
  Sizes and counts are natural numbers. \<open>name\<close> is the path of the module in its parent,
  which names its parameters.
\<close>

record MLP =
  mlp_ln1 :: LayerNorm
  mlp_proj1 :: Linear
  mlp_ln2 :: LayerNorm
  mlp_proj2 :: Linear

definition MLP_init :: "runtime \<Rightarrow> string \<Rightarrow> nat \<Rightarrow> MLP" where
  "MLP_init rt name emb_dim =
     (let inner_dim = (emb_dim * 4 * 2) div 3 in
      \<lparr>mlp_ln1 = LayerNorm_init emb_dim,
       mlp_proj1 = Linear_init rt (name @ ''proj1.weight'') emb_dim inner_dim,
       mlp_ln2 = LayerNorm_init inner_dim,
       mlp_proj2 = Linear_init rt (name @ ''proj2.weight'') inner_dim emb_dim\<rparr>)"

definition MLP_forward :: "MLP \<Rightarrow> tensor \<Rightarrow> error + tensor" where
  "MLP_forward self x0 =
     bindE (LayerNorm_forward (mlp_ln1 self) x0) (\<lambda>n1.
     bindE (Linear_forward (mlp_proj1 self) (PyTensor n1)) (\<lambda>x1.
     bindE (GEGLU_forward x1) (\<lambda>x2.
     bindE (LayerNorm_forward (mlp_ln2 self) x2) (\<lambda>n2.
     Linear_forward (mlp_proj2 self) (PyTensor n2)))))"

section \<open>MultiQueryAttention\<close>

text \<open>
  \<^verbatim>\<open>
  def __init__(self, emb_dim:int, nhead:int, dropout:float) -> None:
      self.nhead = nhead
      self.emb_dim = emb_dim
      self.scale = (emb_dim // nhead) ** -0.5
      self.to_q = nn.Linear(emb_dim, emb_dim, bias=False)
      self.to_kv = nn.Linear(emb_dim, 2 * emb_dim // nhead, bias=False)
      self.to_o = nn.Linear(emb_dim, emb_dim, bias=False)
      self.dropout = dropout
      self.attn_dropout = nn.Dropout(dropout)
      self.flash = hasattr(F, 'scaled_dot_product_attnetion')
  \<close>
  \<open>mqa_training\<close> is \<^verbatim>\<open>self.training\<close>, which every module has and which is set at
  construction.
\<close>

definition pow_neg_half :: "nat \<Rightarrow> error + real" where
  \<comment> \<open>\<^verbatim>\<open>n ** -0.5\<close>\<close>
  "pow_neg_half n = (if n = 0 then Inl ZeroDivisionError else Inr (real n powr (- 1 / 2)))"

record MultiQueryAttention =
  mqa_nhead :: nat
  mqa_emb_dim :: nat
  mqa_scale :: real
  mqa_to_q :: Linear
  mqa_to_kv :: Linear
  mqa_to_o :: Linear
  mqa_dropout :: real
  mqa_attn_dropout :: Dropout
  mqa_flash :: bool
  mqa_training :: bool

definition MultiQueryAttention_init ::
  "runtime \<Rightarrow> string \<Rightarrow> nat \<Rightarrow> nat \<Rightarrow> real \<Rightarrow> error + MultiQueryAttention" where
  "MultiQueryAttention_init rt name emb_dim nhead dropout =
     bindE (floordiv emb_dim nhead) (\<lambda>head_dim.
     bindE (pow_neg_half head_dim) (\<lambda>scale.
     bindE (floordiv (2 * emb_dim) nhead) (\<lambda>kv_dim.
     bindE (Dropout_init dropout) (\<lambda>attn_dropout.
     Inr \<lparr>mqa_nhead = nhead, mqa_emb_dim = emb_dim, mqa_scale = scale,
          mqa_to_q = Linear_init rt (name @ ''to_q.weight'') emb_dim emb_dim,
          mqa_to_kv = Linear_init rt (name @ ''to_kv.weight'') emb_dim kv_dim,
          mqa_to_o = Linear_init rt (name @ ''to_o.weight'') emb_dim emb_dim,
          mqa_dropout = dropout, mqa_attn_dropout = attn_dropout,
          mqa_flash = hasattr_F rt ''scaled_dot_product_attnetion'',
          mqa_training = True\<rparr>))))"

text \<open>
  Attribute access by name, \<^verbatim>\<open>self.name\<close>: the attributes \<^verbatim>\<open>__init__\<close> has set, then
  those of the class.
\<close>

datatype attribute =
    IntAttr nat | FloatAttr real | BoolAttr bool
  | LinearAttr Linear | DropoutAttr Dropout | ClassAttr string

definition MultiQueryAttention_getattr ::
  "runtime \<Rightarrow> MultiQueryAttention \<Rightarrow> string \<Rightarrow> error + attribute" where
  "MultiQueryAttention_getattr rt self name =
     (case map_of
             [(''nhead'', IntAttr (mqa_nhead self)),
              (''emb_dim'', IntAttr (mqa_emb_dim self)),
              (''scale'', FloatAttr (mqa_scale self)),
              (''to_q'', LinearAttr (mqa_to_q self)),
              (''to_kv'', LinearAttr (mqa_to_kv self)),
              (''to_o'', LinearAttr (mqa_to_o self)),
              (''dropout'', FloatAttr (mqa_dropout self)),
              (''attn_dropout'', DropoutAttr (mqa_attn_dropout self)),
              (''flash'', BoolAttr (mqa_flash self)),
              (''training'', BoolAttr (mqa_training self))] name of
        Some a \<Rightarrow> Inr a
      | None \<Rightarrow> if name \<in> set (module_names rt) then Inr (ClassAttr name) else Inl AttributeError)"

definition call_attribute :: "runtime \<Rightarrow> attribute \<Rightarrow> mask \<Rightarrow> tensor \<Rightarrow> error + tensor" where
  "call_attribute rt a keep x =
     (case a of
        LinearAttr l \<Rightarrow> Linear_forward l (PyTensor x)
      | DropoutAttr d \<Rightarrow> Dropout_forward d keep x
      | ClassAttr n \<Rightarrow>
          (case class_call rt n [PyTensor x] of
             Inl e \<Rightarrow> Inl e
           | Inr (PyTensor y) \<Rightarrow> Inr y
           | Inr _ \<Rightarrow> Inl TypeError)
      | _ \<Rightarrow> Inl TypeError)"

text \<open>
  \<^verbatim>\<open>
  def forward(self, input, context=None):
      h = self.nhead
      context = context if not None else input
      q, k, v = (self.to_q(input), *self.to_kv(context).chunk(2, dim=-1))
      q = rearrange(q, "b ... (h d) -> b h ... d", h=h) * self.scale
      if self.flash:
          y = F.scaled_dot_product_attention(q, k, v,
                  dropout_p=self.dropout if self.training else 0.0, is_causal=False)
      else:
          sim = torch.einsum("b ... n d, b t d -> b ... n t", q, k)
          att = self.attn_dropoutdropout(sim.softmax(dim=-1))
          y = torch.einsum("b ... n t, b t d -> b ... n d", att, v)
      y = rearrange(y, "b h ... d -> b ... (h d)")
      return self.to_o(y)
  \<close>
  The condition of the second line is \<^verbatim>\<open>not None\<close>, the negation of the truth value of
  \<^verbatim>\<open>None\<close>; it does not look at \<^verbatim>\<open>context\<close>.
\<close>

definition MultiQueryAttention_eval :: "MultiQueryAttention \<Rightarrow> MultiQueryAttention" where
  \<comment> \<open>\<^verbatim>\<open>self.eval()\<close>: evaluation mode, for the module and its sub-modules\<close>
  "MultiQueryAttention_eval self =
     self\<lparr>mqa_training := False,
          mqa_attn_dropout := (mqa_attn_dropout self)\<lparr>drop_training := False\<rparr>\<rparr>"

definition truth_value_of_None :: bool where
  "truth_value_of_None = False"

definition unpack3 :: "'a list \<Rightarrow> error + 'a \<times> 'a \<times> 'a" where
  \<comment> \<open>\<^verbatim>\<open>a, b, c = xs\<close>\<close>
  "unpack3 xs = (case xs of [a, b, c] \<Rightarrow> Inr (a, b, c) | _ \<Rightarrow> Inl ValueError)"

definition MultiQueryAttention_forward ::
  "runtime \<Rightarrow> MultiQueryAttention \<Rightarrow> mask \<Rightarrow> tensor \<Rightarrow> pyobj \<Rightarrow> error + tensor" where
  "MultiQueryAttention_forward rt self keep input context0 =
     (let h = mqa_nhead self;
          context = (if \<not> truth_value_of_None then context0 else PyTensor input)
      in
      bindE (Linear_forward (mqa_to_q self) (PyTensor input)) (\<lambda>q0.
      bindE (Linear_forward (mqa_to_kv self) context) (\<lambda>kv.
      bindE (chunk kv 2) (\<lambda>kv_chunks.
      bindE (unpack3 (q0 # kv_chunks)) (\<lambda>(q1, k, v).
      bindE (rearrange_split_heads q1 h) (\<lambda>q2.
      let q = scalar_mul q2 (mqa_scale self) in
      bindE (if mqa_flash self
             then bindE (F_scaled_dot_product_attention rt) (\<lambda>fused.
                  fused q k v (if mqa_training self then mqa_dropout self else 0) keep)
             else bindE (einsum_q_k q k) (\<lambda>sim.
                  bindE (MultiQueryAttention_getattr rt self ''attn_dropoutdropout'') (\<lambda>f.
                  bindE (call_attribute rt f keep (softmax sim)) (\<lambda>att.
                  einsum_att_v att v)))) (\<lambda>y.
      bindE (rearrange_merge_heads y) (\<lambda>y'.
      Linear_forward (mqa_to_o self) (PyTensor y')))))))))"

section \<open>MultiAxisAttention\<close>

subsection \<open>\<^verbatim>\<open>nn.Unfold(kernel_size, stride=stride)\<close>, slicing, transposing, concatenating\<close>

record Unfold =
  kernel_size :: nat
  stride :: nat

definition Unfold_forward :: "Unfold \<Rightarrow> tensor \<Rightarrow> error + tensor" where
  \<comment> \<open>a batch \<open>(b, c, h, w)\<close> becomes \<open>(b, c * k * k, L)\<close>: column \<open>l\<close> is the window at
      row \<open>l div lw\<close>, column \<open>l mod lw\<close> of the grid of windows, and row
      \<open>ch * k * k + i * k + j\<close> is channel \<open>ch\<close> at offset \<open>(i, j)\<close> in the window. Rows
      and columns of the image beyond the last whole window are left out. The batch may be
      empty; an image with no channel, or smaller than one window, is refused. (The image
      reaches this call only with at least four axes.)\<close>
  "Unfold_forward self img =
     (case shape img of
        [b, c, h, w] \<Rightarrow>
          let k = kernel_size self; s = stride self in
          if c = 0 \<or> k = 0 \<or> s = 0 \<or> h < k \<or> w < k then Inl RuntimeError
          else
            let lh = (h - k) div s + 1; lw = (w - k) div s + 1 in
            Inr \<lparr>shape = [b, c * k * k, lh * lw],
                 elem = (\<lambda>idx. case idx of
                           [ib, r, l] \<Rightarrow>
                             elem img [ib, r div (k * k),
                                       (l div lw) * s + (r mod (k * k)) div k,
                                       (l mod lw) * s + r mod k]
                         | _ \<Rightarrow> 0)\<rparr>
      | _ \<Rightarrow> Inl RuntimeError)"

definition slice_heads :: "tensor \<Rightarrow> nat \<Rightarrow> nat option \<Rightarrow> error + tensor" where
  \<comment> \<open>\<^verbatim>\<open>t[:, start:stop, ...]\<close>; the bounds are clipped to the axis, and no \<open>stop\<close> is
      its end\<close>
  "slice_heads t start stop =
     (case shape t of
        b # h # rest \<Rightarrow>
          let lo = min start h;
              hi = (case stop of None \<Rightarrow> h | Some e \<Rightarrow> max lo (min e h)) in
          Inr \<lparr>shape = b # (hi - lo) # rest,
               elem = (\<lambda>idx. elem t (idx[1 := idx ! 1 + lo]))\<rparr>
      | _ \<Rightarrow> Inl IndexError)"

definition transpose_2_3 :: "tensor \<Rightarrow> error + tensor" where
  \<comment> \<open>\<^verbatim>\<open>torch.transpose(t, 2, 3)\<close>\<close>
  "transpose_2_3 t =
     (if length (shape t) < 4 then Inl IndexError
      else Inr \<lparr>shape = (shape t)[2 := shape t ! 3, 3 := shape t ! 2],
                elem = (\<lambda>idx. elem t (idx[2 := idx ! 3, 3 := idx ! 2]))\<rparr>)"

definition concat_dim1 :: "tensor \<Rightarrow> tensor \<Rightarrow> error + tensor" where
  \<comment> \<open>\<^verbatim>\<open>torch.concat((a, b), dim=1)\<close>: every other axis must agree\<close>
  "concat_dim1 a b =
     (case (shape a, shape b) of
        (ba # ha # resta, bb # hb # restb) \<Rightarrow>
          if ba = bb \<and> resta = restb
          then Inr \<lparr>shape = ba # (ha + hb) # resta,
                    elem = (\<lambda>idx. if idx ! 1 < ha then elem a idx
                                   else elem b (idx[1 := idx ! 1 - ha]))\<rparr>
          else Inl RuntimeError
      | _ \<Rightarrow> Inl RuntimeError)"

subsection \<open>The module\<close>

text \<open>
  \<^verbatim>\<open>
  def __init__(self, nchannels:int, block_size:int, nhead:int, dropout:float) -> None:
      self.blocker = nn.Unfold(block_size, stride=block_size)
      self.nhead = nhead
      self.nchannels = nchannels
      self.block_size = block_size
      self.scale = (nchannels // nhead) ** -0.5
      self.to_qkv = nn.Linear(nchannels, 3 * nchannels, bias=False)
      self.to_o = nn.Linear(nchannels, nchannels, bias=False)
      self.flash = hasattr(F, 'scaled_dot_product_attnetion')
      if self.flash:
          self.dropout = dropout
      else:
          self.attn_dropout = nn.Dropout(dropout)
  \<close>
  An attribute that only one branch sets is an option.
\<close>

record MultiAxisAttention =
  maa_blocker :: Unfold
  maa_nhead :: nat
  maa_nchannels :: nat
  maa_block_size :: nat
  maa_scale :: real
  maa_to_qkv :: Linear
  maa_to_o :: Linear
  maa_flash :: bool
  maa_dropout :: "real option"
  maa_attn_dropout :: "Dropout option"
  maa_training :: bool

definition MultiAxisAttention_init ::
  "runtime \<Rightarrow> string \<Rightarrow> nat \<Rightarrow> nat \<Rightarrow> nat \<Rightarrow> real \<Rightarrow> error + MultiAxisAttention" where
  "MultiAxisAttention_init rt name nchannels block_size nhead dropout =
     bindE (floordiv nchannels nhead) (\<lambda>head_dim.
     bindE (pow_neg_half head_dim) (\<lambda>scale.
     let flash = hasattr_F rt ''scaled_dot_product_attnetion'' in
     bindE (if flash then Inr (Some dropout, None)
            else bindE (Dropout_init dropout) (\<lambda>d. Inr (None, Some d))) (\<lambda>(p, attn_dropout).
     Inr \<lparr>maa_blocker = \<lparr>kernel_size = block_size, stride = block_size\<rparr>,
          maa_nhead = nhead, maa_nchannels = nchannels, maa_block_size = block_size,
          maa_scale = scale,
          maa_to_qkv = Linear_init rt (name @ ''to_qkv.weight'') nchannels (3 * nchannels),
          maa_to_o = Linear_init rt (name @ ''to_o.weight'') nchannels nchannels,
          maa_flash = flash, maa_dropout = p, maa_attn_dropout = attn_dropout,
          maa_training = True\<rparr>)))"

text \<open>
  \<^verbatim>\<open>
  def forward(self, img):
      assert img.shape[2] == img.shape[3]
      assert img.shape[2] // self.block_size == self.block_size
      h = self.nhead
      c = self.nchannels
      img_blocks = self.blocker(img)
      img_blocks = map(lambda t: rearrange(t, "b (c k k) n -> b n (k k) c", c=c), (img_blocks))
      q, k, v = self.to_qkv(img_blocks).chunk(3, dim=-1)
      q, k, v = map(lambda t: rearrange(t, 'b n p (h c) -> b h n p c', h = h) * self.scale, (q, k, v))
      q, k, v = axis_splitting(q, k, v, h)
      if self.flash:
          y = F.scaled_dot_product_attention(
              q, k, v, dropout_p = self.dropout if self.training else 0.0, is_causal=False
          )
      else:
          sim = torch.einsum("b h n p c, b h n q c -> b h n p q", q, k)
          att = F.dropout(sim.softmax(dim=-1))
          y = torch.einsum("b h n p q, b h n q c -> b h n p c", att, v)
      y = rearrange(y, "b h n p c -> b n p (h c)")
      return y
  \<close>
  The function is modelled in the order of its statements: the two assertions
  (\<open>MultiAxisAttention_asserts\<close>), the blocker, the \<^verbatim>\<open>map\<close>, the projection into scaled
  heads (\<open>MultiAxisAttention_project\<close>, the two lines from \<^verbatim>\<open>self.to_qkv\<close>),
  \<open>axis_splitting\<close>, the attention proper (\<open>MultiAxisAttention_attention\<close>, the
  \<^verbatim>\<open>if self.flash\<close> statement) and the final \<^verbatim>\<open>rearrange\<close>.

  \<^verbatim>\<open>(img_blocks)\<close> is the tensor itself, not a tuple, so \<^verbatim>\<open>map\<close> returns a lazy map object
  over its first axis without calling the lambda; that object is what \<^verbatim>\<open>self.to_qkv\<close>
  receives. \<^verbatim>\<open>F.dropout(x)\<close> is \<^verbatim>\<open>F.dropout(x, p=0.5, training=True)\<close>.
\<close>

definition MultiAxisAttention_asserts :: "MultiAxisAttention \<Rightarrow> tensor \<Rightarrow> error + unit" where
  "MultiAxisAttention_asserts self img =
     bindE (shape_index img 2) (\<lambda>h_img.
     bindE (shape_index img 3) (\<lambda>w_img.
     bindE (py_assert (h_img = w_img)) (\<lambda>_.
     bindE (floordiv h_img (maa_block_size self)) (\<lambda>blocks_per_side.
     py_assert (blocks_per_side = maa_block_size self)))))"

definition scaled_heads :: "MultiAxisAttention \<Rightarrow> tensor \<Rightarrow> error + tensor" where
  \<comment> \<open>\<^verbatim>\<open>lambda t: rearrange(t, 'b n p (h c) -> b h n p c', h = h) * self.scale\<close>\<close>
  "scaled_heads self t =
     bindE (rearrange_bnp_hc t (maa_nhead self)) (\<lambda>r. Inr (scalar_mul r (maa_scale self)))"

definition MultiAxisAttention_project ::
  "MultiAxisAttention \<Rightarrow> pyobj \<Rightarrow> error + tensor \<times> tensor \<times> tensor" where
  "MultiAxisAttention_project self img_blocks =
     bindE (Linear_forward (maa_to_qkv self) img_blocks) (\<lambda>qkv.
     bindE (chunk qkv 3) (\<lambda>qkv_chunks.
     bindE (unpack3 qkv_chunks) (\<lambda>(q0, k0, v0).
     bindE (scaled_heads self q0) (\<lambda>q.
     bindE (scaled_heads self k0) (\<lambda>k.
     bindE (scaled_heads self v0) (\<lambda>v.
     Inr (q, k, v)))))))"

text \<open>
  \<^verbatim>\<open>
  def axis_splitting(q, k, v, h):
      q1, k1, v1 = (q[:, :h // 2, ...], k[:, :h // 2, ...], v[:, :h // 2, ...])
      q2, k2, v2 = (q[:, h // 2:, ...], k[:, h // 2:, ...], v[:, h // 2:, ...])
      q1, k1, v1 = map(lambda t: torch.transpose(t, 2, 3), (q1, k1, v1))
      q, k , v = map(lambda ts: torch.concat(ts, dim=1), ((q1, q2), (k1, k2), (v1, v2)))
      return q, k, v
  \<close>
\<close>

definition axis_splitting ::
  "tensor \<Rightarrow> tensor \<Rightarrow> tensor \<Rightarrow> nat \<Rightarrow> error + tensor \<times> tensor \<times> tensor" where
  "axis_splitting q k v h =
     bindE (slice_heads q 0 (Some (h div 2))) (\<lambda>q1.
     bindE (slice_heads k 0 (Some (h div 2))) (\<lambda>k1.
     bindE (slice_heads v 0 (Some (h div 2))) (\<lambda>v1.
     bindE (slice_heads q (h div 2) None) (\<lambda>q2.
     bindE (slice_heads k (h div 2) None) (\<lambda>k2.
     bindE (slice_heads v (h div 2) None) (\<lambda>v2.
     bindE (transpose_2_3 q1) (\<lambda>q1'.
     bindE (transpose_2_3 k1) (\<lambda>k1'.
     bindE (transpose_2_3 v1) (\<lambda>v1'.
     bindE (concat_dim1 q1' q2) (\<lambda>q'.
     bindE (concat_dim1 k1' k2) (\<lambda>k'.
     bindE (concat_dim1 v1' v2) (\<lambda>v'.
     Inr (q', k', v')))))))))))))"

definition MultiAxisAttention_attention ::
  "runtime \<Rightarrow> MultiAxisAttention \<Rightarrow> mask \<Rightarrow> tensor \<Rightarrow> tensor \<Rightarrow> tensor \<Rightarrow> error + tensor" where
  "MultiAxisAttention_attention rt self keep q k v =
     (if maa_flash self
      then bindE (F_scaled_dot_product_attention rt) (\<lambda>fused.
           bindE (if maa_training self
                  then (case maa_dropout self of Some p \<Rightarrow> Inr p | None \<Rightarrow> Inl AttributeError)
                  else Inr 0) (\<lambda>dropout_p.
           fused q k v dropout_p keep))
      else bindE (einsum_bhnpc_bhnqc q k) (\<lambda>sim.
           bindE (F_dropout (softmax sim) (1 / 2) True keep) (\<lambda>att.
           einsum_bhnpq_bhnqc att v)))"

definition MultiAxisAttention_forward ::
  "runtime \<Rightarrow> MultiAxisAttention \<Rightarrow> mask \<Rightarrow> tensor \<Rightarrow> error + tensor" where
  "MultiAxisAttention_forward rt self keep img =
     bindE (MultiAxisAttention_asserts self img) (\<lambda>_.
     let h = maa_nhead self in
     bindE (Unfold_forward (maa_blocker self) img) (\<lambda>blocks.
     let img_blocks = PyMap blocks in
     bindE (MultiAxisAttention_project self img_blocks) (\<lambda>(q0, k0, v0).
     bindE (axis_splitting q0 k0 v0 h) (\<lambda>(q, k, v).
     bindE (MultiAxisAttention_attention rt self keep q k v) (\<lambda>y.
     rearrange_bhnpc y)))))"

definition MultiAxisAttention_eval :: "MultiAxisAttention \<Rightarrow> MultiAxisAttention" where
  \<comment> \<open>\<^verbatim>\<open>self.eval()\<close>: evaluation mode, for the module and its sub-modules\<close>
  "MultiAxisAttention_eval self =
     self\<lparr>maa_training := False,
          maa_attn_dropout := map_option (\<lambda>d. d\<lparr>drop_training := False\<rparr>) (maa_attn_dropout self)\<rparr>"

section \<open>The blocks\<close>

text \<open>
  A block calls its sub-modules and adds tensors. In the record of a block, a sub-module
  is what calling it does: a function from its arguments (and the generator's draws, for
  an attention module) to a tensor or a raise. \<open>gen i\<close> is what the generator draws in the
  \<open>i\<close>-th attention call of one forward pass.
\<close>

subsection \<open>EncoderBlock\<close>

text \<open>
  \<^verbatim>\<open>
  def __init__(self, emb_dim:int, nhead:int, dropout:float) -> None:
      self.ln1 = nn.LayerNorm(emb_dim)
      self.self_attn = MultiQueryAttention(emb_dim, nhead, dropout)
      self.mlp = MLP(emb_dim)

  def forward(self, input):
      x = input + self.self_attn(self.ln1(input))
      x = self.mlp(x)
      return x
  \<close>
\<close>

record EncoderBlock =
  enc_ln1 :: "tensor \<Rightarrow> error + tensor"
  enc_self_attn :: "mask \<Rightarrow> tensor \<Rightarrow> pyobj \<Rightarrow> error + tensor"
  enc_mlp :: "tensor \<Rightarrow> error + tensor"

definition EncoderBlock_init ::
  "runtime \<Rightarrow> string \<Rightarrow> nat \<Rightarrow> nat \<Rightarrow> real \<Rightarrow> error + EncoderBlock" where
  "EncoderBlock_init rt name emb_dim nhead dropout =
     bindE (MultiQueryAttention_init rt (name @ ''self_attn.'') emb_dim nhead dropout) (\<lambda>attn.
     Inr \<lparr>enc_ln1 = LayerNorm_forward (LayerNorm_init emb_dim),
          enc_self_attn = MultiQueryAttention_forward rt attn,
          enc_mlp = MLP_forward (MLP_init rt (name @ ''mlp.'') emb_dim)\<rparr>)"

definition EncoderBlock_forward :: "EncoderBlock \<Rightarrow> (nat \<Rightarrow> mask) \<Rightarrow> tensor \<Rightarrow> error + tensor" where
  "EncoderBlock_forward self gen input =
     bindE (enc_ln1 self input) (\<lambda>normed.
     bindE (enc_self_attn self (gen 0) normed PyNone) (\<lambda>attended.
     bindE (tensor_add input attended) (\<lambda>x.
     enc_mlp self x)))"

subsection \<open>TransformerBlock\<close>

text \<open>
  \<^verbatim>\<open>
  def __init__(self, emb_dim:int, nhead:int, dropout:float) -> None:
      self.ln1 = nn.LayerNorm(emb_dim)
      self.self_attn = MultiQueryAttention(emb_dim, nhead, dropout)
      self.ln2 = nn.LayerNorm(emb_dim)
      self.cross_attn = MultiQueryAttention(emb_dim, nhead, dropout)
      self.mlp = MLP(emb_dim)

  def forward(self, input, context):
      x = input + self.self_attn(self.ln1(input))
      if context is not None:
          x = x + self.cross_attn(self.ln2(x), context)
      x = self.mlp(x)
      return x
  \<close>
\<close>

record TransformerBlock =
  tb_ln1 :: "tensor \<Rightarrow> error + tensor"
  tb_self_attn :: "mask \<Rightarrow> tensor \<Rightarrow> pyobj \<Rightarrow> error + tensor"
  tb_ln2 :: "tensor \<Rightarrow> error + tensor"
  tb_cross_attn :: "mask \<Rightarrow> tensor \<Rightarrow> pyobj \<Rightarrow> error + tensor"
  tb_mlp :: "tensor \<Rightarrow> error + tensor"

definition TransformerBlock_init ::
  "runtime \<Rightarrow> string \<Rightarrow> nat \<Rightarrow> nat \<Rightarrow> real \<Rightarrow> error + TransformerBlock" where
  "TransformerBlock_init rt name emb_dim nhead dropout =
     bindE (MultiQueryAttention_init rt (name @ ''self_attn.'') emb_dim nhead dropout) (\<lambda>attn.
     bindE (MultiQueryAttention_init rt (name @ ''cross_attn.'') emb_dim nhead dropout) (\<lambda>cross.
     Inr \<lparr>tb_ln1 = LayerNorm_forward (LayerNorm_init emb_dim),
          tb_self_attn = MultiQueryAttention_forward rt attn,
          tb_ln2 = LayerNorm_forward (LayerNorm_init emb_dim),
          tb_cross_attn = MultiQueryAttention_forward rt cross,
          tb_mlp = MLP_forward (MLP_init rt (name @ ''mlp.'') emb_dim)\<rparr>))"

definition TransformerBlock_forward ::
  "TransformerBlock \<Rightarrow> (nat \<Rightarrow> mask) \<Rightarrow> tensor \<Rightarrow> pyobj \<Rightarrow> error + tensor" where
  "TransformerBlock_forward self gen input context =
     bindE (tb_ln1 self input) (\<lambda>normed.
     bindE (tb_self_attn self (gen 0) normed PyNone) (\<lambda>attended.
     bindE (tensor_add input attended) (\<lambda>x.
     bindE (if context \<noteq> PyNone
            then bindE (tb_ln2 self x) (\<lambda>normed2.
                 bindE (tb_cross_attn self (gen 1) normed2 context) (\<lambda>attended2.
                 tensor_add x attended2))
            else Inr x) (\<lambda>x'.
     tb_mlp self x'))))"

subsection \<open>MultiAxisTransformerBlock\<close>

text \<open>
  \<^verbatim>\<open>
  def __init__(self, nchannels:int, block_size:int, nhead:int, dropout:float) -> None:
      super(MultiAxisTransformerBlock, self).__init()
      self.ln1 = nn.LayerNorm(nchannels)
      self.self_attn = MultiAxisAttention(nchannels, block_size, nhead, dropout)
      self.ln2 = nn.LayerNorm(nchannels)
      self.cross_attn = MultiQueryAttention(nchannels, nhead, dropout)
      self.mlp = MLP(nchannels)

  def forward(self, input, context):
      x = input + self.self_attn(self.ln1(input))
      x = x + self.cross_attn(self.ln2(x), context)
      x = self.mlp(x)
      return x
  \<close>
  Inside a class body Python rewrites a name that starts with two underscores and does
  not end with two to \<^verbatim>\<open>_Class__name\<close>; the attribute looked up on the parent class is
  the rewritten one. The other classes call \<^verbatim>\<open>__init__\<close>, which every module class has.
\<close>

definition mangle :: "string \<Rightarrow> string \<Rightarrow> string" where
  "mangle cls name =
     (if take 2 name = ''__'' \<and> drop (length name - 2) name \<noteq> ''__''
      then ''_'' @ dropWhile (\<lambda>ch. ch = CHR ''_'') cls @ name
      else name)"

definition super_getattr :: "runtime \<Rightarrow> string \<Rightarrow> string \<Rightarrow> error + string" where
  \<comment> \<open>\<^verbatim>\<open>super(cls, self).name\<close>, written in the body of \<^verbatim>\<open>cls\<close>\<close>
  "super_getattr rt cls name =
     (if mangle cls name \<in> set (module_names rt) then Inr (mangle cls name)
      else Inl AttributeError)"

record MultiAxisTransformerBlock =
  matb_ln1 :: "tensor \<Rightarrow> error + tensor"
  matb_self_attn :: "mask \<Rightarrow> tensor \<Rightarrow> error + tensor"
  matb_ln2 :: "tensor \<Rightarrow> error + tensor"
  matb_cross_attn :: "mask \<Rightarrow> tensor \<Rightarrow> pyobj \<Rightarrow> error + tensor"
  matb_mlp :: "tensor \<Rightarrow> error + tensor"

definition MultiAxisTransformerBlock_init ::
  "runtime \<Rightarrow> string \<Rightarrow> nat \<Rightarrow> nat \<Rightarrow> nat \<Rightarrow> real \<Rightarrow> error + MultiAxisTransformerBlock" where
  "MultiAxisTransformerBlock_init rt name nchannels block_size nhead dropout =
     bindE (super_getattr rt ''MultiAxisTransformerBlock'' ''__init'') (\<lambda>parent_init.
     bindE (class_call rt parent_init []) (\<lambda>_.
     bindE (MultiAxisAttention_init rt (name @ ''self_attn.'') nchannels block_size nhead dropout)
       (\<lambda>attn.
     bindE (MultiQueryAttention_init rt (name @ ''cross_attn.'') nchannels nhead dropout) (\<lambda>cross.
     Inr \<lparr>matb_ln1 = LayerNorm_forward (LayerNorm_init nchannels),
          matb_self_attn = MultiAxisAttention_forward rt attn,
          matb_ln2 = LayerNorm_forward (LayerNorm_init nchannels),
          matb_cross_attn = MultiQueryAttention_forward rt cross,
          matb_mlp = MLP_forward (MLP_init rt (name @ ''mlp.'') nchannels)\<rparr>))))"

definition MultiAxisTransformerBlock_forward ::
  "MultiAxisTransformerBlock \<Rightarrow> (nat \<Rightarrow> mask) \<Rightarrow> tensor \<Rightarrow> pyobj \<Rightarrow> error + tensor" where
  "MultiAxisTransformerBlock_forward self gen input context =
     bindE (matb_ln1 self input) (\<lambda>normed.
     bindE (matb_self_attn self (gen 0) normed) (\<lambda>attended.
     bindE (tensor_add input attended) (\<lambda>x.
     bindE (matb_ln2 self x) (\<lambda>normed2.
     bindE (matb_cross_attn self (gen 1) normed2 context) (\<lambda>attended2.
     bindE (tensor_add x attended2) (\<lambda>x'.
     matb_mlp self x'))))))"

section \<open>Values for the examples\<close>

text \<open>
  The theorems hold for every runtime. Their examples are evaluated in this one: a
  release whose \<^verbatim>\<open>torch.nn.functional\<close> has the fused attention kernel under its
  correct name. The kernel computes what its documentation gives for
  \<^verbatim>\<open>is_causal=False\<close> and no mask: the softmax of \<open>q k\<^sup>T / sqrt E\<close> over the keys, with
  dropout at rate \<^verbatim>\<open>dropout_p\<close>, times \<open>v\<close>; the axes before the last two are broadcast.
\<close>

definition documented_attention ::
  "tensor \<Rightarrow> tensor \<Rightarrow> tensor \<Rightarrow> real \<Rightarrow> mask \<Rightarrow> error + tensor" where
  "documented_attention q k v dropout_p keep =
     (if length (shape q) < 2 \<or> length (shape k) < 2 \<or> length (shape v) < 2
      then Inl RuntimeError
      else
        let l = last (butlast (shape q)); e = last (shape q);
            s = last (butlast (shape k)); e' = last (shape k);
            s' = last (butlast (shape v)); ev = last (shape v)
        in
        if e = e' \<and> s = s'
        then (case broadcast_shapes (butlast (butlast (shape q))) (butlast (butlast (shape k))) of
                None \<Rightarrow> Inl RuntimeError
              | Some b1 \<Rightarrow>
                  let scores =
                        scalar_mul
                          (contraction (b1 @ [l, s]) e
                             (\<lambda>idx j. butlast idx @ [j])
                             (\<lambda>idx j. butlast (butlast idx) @ [last idx, j]) q k)
                          (1 / sqrt (real e))
                  in
                  bindE (F_dropout (softmax scores) dropout_p True keep) (\<lambda>w.
                  case broadcast_shapes b1 (butlast (butlast (shape v))) of
                    None \<Rightarrow> Inl RuntimeError
                  | Some b2 \<Rightarrow>
                      Inr (contraction (b2 @ [l, ev]) s
                             (\<lambda>idx j. butlast idx @ [j])
                             (\<lambda>idx j. butlast (butlast idx) @ [j, last idx]) w v)))
        else Inl RuntimeError)"

definition reference_runtime :: runtime where
  "reference_runtime =
     \<lparr>functional_names =
        [''scaled_dot_product_attention'', ''dropout'', ''gelu'', ''linear'', ''softmax'',
         ''layer_norm'', ''unfold''],
      module_names =
        [''__init__'', ''__call__'', ''forward'', ''train'', ''eval'', ''parameters'',
         ''named_parameters'', ''state_dict'', ''load_state_dict'', ''to'', ''apply''],
      class_call = (\<lambda>name args. if name = ''__init__'' \<and> args = [] then Inr PyNone
                                else Inl TypeError),
      scaled_dot_product_attention = documented_attention,
      initial_weight = (\<lambda>name idx. 1)\<rparr>"

definition full :: "nat list \<Rightarrow> real \<Rightarrow> tensor" where
  \<comment> \<open>\<^verbatim>\<open>torch.full(shape, value)\<close>\<close>
  "full shp v = \<lparr>shape = shp, elem = (\<lambda>idx. v)\<rparr>"

section \<open>Properties\<close>

subsection \<open>Sequencing, broadcasting and chunking\<close>

lemma bindE_simps:
  "bindE (Inl e) f = Inl e"
  "bindE (Inr x) f = f x"
  by (simp_all add: bindE_def)

lemma broadcast_index_valid:
  assumes "valid_index s idx"
  shows "broadcast_index s idx = idx"
proof -
  have len: "length idx = length s"
    using assms by (simp add: valid_index_def list_all2_lengthD)
  have "list_all2 (\<lambda>i d. i < d) idx s \<Longrightarrow>
        map2 (\<lambda>d i. if d = (1::nat) then 0 else i) s idx = (idx::nat list)"
    by (induction idx s rule: list_all2_induct) auto
  with assms len show ?thesis
    by (simp add: valid_index_def broadcast_index_def)
qed

lemma broadcast_rev_same: "broadcast_rev xs xs = Some xs"
  by (induction xs) auto

lemma broadcast_shapes_same: "broadcast_shapes xs xs = Some xs"
  by (simp add: broadcast_shapes_def broadcast_rev_same)

lemma chunk_2_even:
  assumes s: "shape t = pre @ [2 * m]"
  shows "chunk t 2 = Inr [slice_last t 0 m, slice_last t m m]"
proof (cases "m = 0")
  case True
  with s show ?thesis by (simp add: chunk_def Let_def numeral_2_eq_2)
next
  case False
  have n: "(3 * m - Suc 0) div m = 2"
  proof -
    obtain j where j: "m = Suc j" using False by (cases m) auto
    have "3 * m - Suc 0 = j + m * 2" using j by simp
    moreover have "j < m" using j by simp
    ultimately show ?thesis by simp
  qed
  show ?thesis using s False
    by (simp add: chunk_def Let_def n upt_rec[of 0] upt_rec[of "Suc 0"] del: upt_Suc)
qed

subsection \<open>GEGLU\<close>

lemma GEGLU_forward_never_returns: "\<exists>e. GEGLU_forward t = Inl e"
  by (auto simp: GEGLU_forward_def F_gelu_def bindE_def split: sum.splits prod.splits)

text \<open>
  C8. On every input whose last axis has even width \<open>2 * m\<close>, GEGLU does not return
  \<open>gate * gelu_tanh(x)\<close>: the input is split into its two halves, and the call
  \<^verbatim>\<open>F.gelu(x, 'tanh')\<close>, which passes \<^verbatim>\<open>'tanh'\<close> by position to a keyword-only parameter,
  raises TypeError.
\<close>

theorem GEGLU_forward_raises_TypeError:
  assumes "shape t = pre @ [2 * m]"
  shows "GEGLU_forward t = Inl TypeError"
  by (simp add: GEGLU_forward_def chunk_2_even[OF assms] unpack2_def bindE_simps F_gelu_def)

theorem GEGLU_forward_raises_TypeError_example:
  "shape (tensor_of_list [1, 2]) = [] @ [2 * 1] \<and>
   GEGLU_forward (tensor_of_list [1, 2]) = Inl TypeError"
proof -
  have s: "shape (tensor_of_list [1, 2]) = [] @ [2 * 1]"
    by (simp add: tensor_of_list_def)
  from GEGLU_forward_raises_TypeError[OF s] s show ?thesis by simp
qed

subsection \<open>MultiQueryAttention\<close>

lemma MultiQueryAttention_init_fields:
  assumes "MultiQueryAttention_init rt name emb_dim nhead dropout = Inr self"
  shows "mqa_flash self = hasattr_F rt ''scaled_dot_product_attnetion''"
    and "mqa_to_q self = Linear_init rt (name @ ''to_q.weight'') emb_dim emb_dim"
    and "nhead \<noteq> 0" and "mqa_nhead self = nhead"
  using assms
  by (auto simp: MultiQueryAttention_init_def bindE_def floordiv_def split: sum.splits if_splits)

lemma MultiQueryAttention_getattr_misspelled:
  "''attn_dropoutdropout'' \<notin> set (module_names rt) \<Longrightarrow>
   MultiQueryAttention_getattr rt self ''attn_dropoutdropout'' = Inl AttributeError"
  by (simp add: MultiQueryAttention_getattr_def)

lemma reference_runtime_names:
  "''scaled_dot_product_attnetion'' \<notin> set (functional_names reference_runtime)"
  "''attn_dropoutdropout'' \<notin> set (module_names reference_runtime)"
  by (simp_all add: reference_runtime_def)

lemma reference_MultiQueryAttention:
  "MultiQueryAttention_init reference_runtime '''' 4 2 0 =
     Inr \<lparr>mqa_nhead = 2, mqa_emb_dim = 4, mqa_scale = 2 powr (- 1 / 2),
          mqa_to_q = Linear_init reference_runtime ''to_q.weight'' 4 4,
          mqa_to_kv = Linear_init reference_runtime ''to_kv.weight'' 4 4,
          mqa_to_o = Linear_init reference_runtime ''to_o.weight'' 4 4,
          mqa_dropout = 0, mqa_attn_dropout = \<lparr>drop_p = 0, drop_training = True\<rparr>,
          mqa_flash = False, mqa_training = True\<rparr>"
  by (simp add: MultiQueryAttention_init_def bindE_simps floordiv_def pow_neg_half_def
      Dropout_init_def hasattr_F_def reference_runtime_def)

text \<open>
  C9. Where \<^verbatim>\<open>torch.nn.functional\<close> has no attribute of the misspelled name
  \<^verbatim>\<open>scaled_dot_product_attnetion\<close> and \<^verbatim>\<open>nn.Module\<close> none named
  \<^verbatim>\<open>attn_dropoutdropout\<close>, every constructed MultiQueryAttention has
  \<^verbatim>\<open>self.flash\<close> false, and its forward function raises for every input and every
  context: it never returns.
\<close>

theorem MultiQueryAttention_forward_always_raises:
  assumes "''scaled_dot_product_attnetion'' \<notin> set (functional_names rt)"
      and "''attn_dropoutdropout'' \<notin> set (module_names rt)"
      and "MultiQueryAttention_init rt name emb_dim nhead dropout = Inr self"
  shows "\<not> mqa_flash self \<and>
         (\<exists>e. MultiQueryAttention_forward rt self keep input context = Inl e)"
proof -
  have no_flash: "\<not> mqa_flash self"
    using MultiQueryAttention_init_fields(1)[OF assms(3)] assms(1) by (simp add: hasattr_F_def)
  have "\<exists>e. MultiQueryAttention_forward rt self keep input context = Inl e"
    unfolding MultiQueryAttention_forward_def Let_def
    using no_flash MultiQueryAttention_getattr_misspelled[OF assms(2), of self]
    by (auto simp: bindE_def split: sum.splits prod.splits)
  with no_flash show ?thesis by simp
qed

theorem MultiQueryAttention_forward_always_raises_example:
  "''scaled_dot_product_attnetion'' \<notin> set (functional_names reference_runtime) \<and>
   ''attn_dropoutdropout'' \<notin> set (module_names reference_runtime) \<and>
   (\<exists>self. MultiQueryAttention_init reference_runtime '''' 4 2 0 = Inr self \<and>
      \<not> mqa_flash self \<and>
      (\<exists>e. MultiQueryAttention_forward reference_runtime self (\<lambda>idx. True) (full [1, 3, 4] 1)
              (PyTensor (full [1, 3, 4] 1)) = Inl e))"
proof -
  obtain self where s: "MultiQueryAttention_init reference_runtime '''' 4 2 0 = Inr self"
    using reference_MultiQueryAttention by blast
  from MultiQueryAttention_forward_always_raises[OF reference_runtime_names s]
    s reference_runtime_names
  show ?thesis by blast
qed

text \<open>
  C3. Called with \<^verbatim>\<open>context=None\<close> on an input whose last axis has width \<open>emb_dim\<close>,
  the forward function of a constructed MultiQueryAttention does not attend to the input:
  \<^verbatim>\<open>context if not None else input\<close> keeps \<^verbatim>\<open>None\<close>, and \<^verbatim>\<open>self.to_kv(None)\<close>
  raises TypeError.
\<close>

theorem MultiQueryAttention_forward_context_None:
  assumes "MultiQueryAttention_init rt name emb_dim nhead dropout = Inr self"
      and "shape input = pre @ [emb_dim]"
  shows "MultiQueryAttention_forward rt self keep input PyNone = Inl TypeError"
  unfolding MultiQueryAttention_forward_def Let_def
  using assms(2)
  by (simp add: MultiQueryAttention_init_fields(2)[OF assms(1)] Linear_forward_def
      Linear_init_def F_linear_def bindE_simps truth_value_of_None_def)

theorem MultiQueryAttention_forward_context_None_example:
  "\<exists>self. MultiQueryAttention_init reference_runtime '''' 4 2 0 = Inr self \<and>
      shape (full [1, 3, 4] 1) = [1, 3] @ [4] \<and>
      MultiQueryAttention_forward reference_runtime self (\<lambda>idx. True) (full [1, 3, 4] 1) PyNone
        = Inl TypeError"
proof -
  obtain self where s: "MultiQueryAttention_init reference_runtime '''' 4 2 0 = Inr self"
    using reference_MultiQueryAttention by blast
  have sh: "shape (full [1, 3, 4] 1) = [1, 3] @ [4]" by (simp add: full_def)
  from MultiQueryAttention_forward_context_None[OF s sh] s sh
  show ?thesis by blast
qed

lemma MultiQueryAttention_forward_None_before_branch:
  assumes "shape x = pre @ [in_features (mqa_to_q self)]"
      and "shape (weight (mqa_to_q self)) = [n, in_features (mqa_to_q self)]"
  shows "MultiQueryAttention_forward rt self keep x PyNone = Inl TypeError"
  unfolding MultiQueryAttention_forward_def Let_def
  using assms
  by (simp add: Linear_forward_def F_linear_def bindE_simps truth_value_of_None_def)

lemma reference_MultiQueryAttention_explicit_branch:
  "MultiQueryAttention_forward reference_runtime
      \<lparr>mqa_nhead = 2, mqa_emb_dim = 4, mqa_scale = 2 powr (- 1 / 2),
       mqa_to_q = Linear_init reference_runtime ''to_q.weight'' 4 4,
       mqa_to_kv = Linear_init reference_runtime ''to_kv.weight'' 4 4,
       mqa_to_o = Linear_init reference_runtime ''to_o.weight'' 4 4,
       mqa_dropout = 0, mqa_attn_dropout = \<lparr>drop_p = 0, drop_training = True\<rparr>,
       mqa_flash = False, mqa_training = True\<rparr>
      (\<lambda>idx. True) (full [1, 3, 4] 1) (PyTensor (full [1, 3, 4] 1)) = Inl AttributeError"
  unfolding MultiQueryAttention_forward_def Let_def
  apply (simp add: Linear_forward_def Linear_init_def F_linear_def bindE_simps
      truth_value_of_None_def full_def)
  apply (subst chunk_2_even[where pre="[1, 3]" and m=2])
   apply simp
  apply (simp add: bindE_simps unpack3_def rearrange_split_heads_def Let_def einsum_q_k_def
      slice_last_def scalar_mul_def tmap_def broadcast_shapes_def
      MultiQueryAttention_getattr_def reference_runtime_def)
  done

text \<open>
  C5. At \<open>emb_dim = 4\<close>, \<open>nhead = 2\<close> (\<open>4 mod 2 = 0\<close>), zero dropout and
  \<^verbatim>\<open>context=None\<close>, the forward function produces no output on either branch: with
  \<^verbatim>\<open>self.flash\<close> set either way it raises TypeError before the branch is reached; and
  with the input passed as the context, the explicit branch, the one construction
  selects, raises AttributeError.
\<close>

theorem MultiQueryAttention_neither_path_returns:
  "\<exists>self. MultiQueryAttention_init reference_runtime '''' 4 2 0 = Inr self \<and>
     mqa_dropout self = 0 \<and> mqa_emb_dim self mod mqa_nhead self = 0 \<and>
     MultiQueryAttention_forward reference_runtime (self\<lparr>mqa_flash := True\<rparr>) (\<lambda>idx. True)
        (full [1, 3, 4] 1) PyNone = Inl TypeError \<and>
     MultiQueryAttention_forward reference_runtime (self\<lparr>mqa_flash := False\<rparr>) (\<lambda>idx. True)
        (full [1, 3, 4] 1) PyNone = Inl TypeError \<and>
     MultiQueryAttention_forward reference_runtime self (\<lambda>idx. True)
        (full [1, 3, 4] 1) (PyTensor (full [1, 3, 4] 1)) = Inl AttributeError"
proof (rule exI, rule conjI, rule reference_MultiQueryAttention, intro conjI)
  let ?self = "\<lparr>mqa_nhead = 2, mqa_emb_dim = 4, mqa_scale = 2 powr (- 1 / 2),
       mqa_to_q = Linear_init reference_runtime ''to_q.weight'' 4 4,
       mqa_to_kv = Linear_init reference_runtime ''to_kv.weight'' 4 4,
       mqa_to_o = Linear_init reference_runtime ''to_o.weight'' 4 4,
       mqa_dropout = 0, mqa_attn_dropout = \<lparr>drop_p = 0, drop_training = True\<rparr>,
       mqa_flash = False, mqa_training = True\<rparr>"
  show "mqa_dropout ?self = 0" by simp
  show "mqa_emb_dim ?self mod mqa_nhead ?self = 0" by simp
  show "MultiQueryAttention_forward reference_runtime (?self\<lparr>mqa_flash := True\<rparr>)
          (\<lambda>idx. True) (full [1, 3, 4] 1) PyNone = Inl TypeError"
    by (rule MultiQueryAttention_forward_None_before_branch[where pre="[1, 3]" and n=4])
       (simp_all add: Linear_init_def full_def)
  show "MultiQueryAttention_forward reference_runtime (?self\<lparr>mqa_flash := False\<rparr>)
          (\<lambda>idx. True) (full [1, 3, 4] 1) PyNone = Inl TypeError"
    by (rule MultiQueryAttention_forward_None_before_branch[where pre="[1, 3]" and n=4])
       (simp_all add: Linear_init_def full_def)
  show "MultiQueryAttention_forward reference_runtime ?self (\<lambda>idx. True)
          (full [1, 3, 4] 1) (PyTensor (full [1, 3, 4] 1)) = Inl AttributeError"
    by (rule reference_MultiQueryAttention_explicit_branch)
qed

subsection \<open>MultiAxisAttention\<close>

lemma MultiAxisAttention_init_fields:
  assumes "MultiAxisAttention_init rt name nchannels block_size nhead dropout = Inr self"
  shows "maa_block_size self = block_size"
    and "maa_blocker self = \<lparr>kernel_size = block_size, stride = block_size\<rparr>"
    and "maa_nhead self = nhead"
    and "maa_nchannels self = nchannels"
    and "maa_flash self = hasattr_F rt ''scaled_dot_product_attnetion''"
    and "maa_to_qkv self = Linear_init rt (name @ ''to_qkv.weight'') nchannels (3 * nchannels)"
    and "pow_neg_half (nchannels div nhead) = Inr (maa_scale self)"
    and "nhead \<noteq> 0"
  using assms
  by (auto simp: MultiAxisAttention_init_def bindE_def floordiv_def Let_def
      split: sum.splits if_splits prod.splits)

lemma MultiAxisAttention_project_map_object:
  "MultiAxisAttention_project self (PyMap t) = Inl TypeError"
  by (simp add: MultiAxisAttention_project_def Linear_forward_def bindE_simps)

lemma MultiAxisAttention_forward_never_returns:
  "\<exists>e. MultiAxisAttention_forward rt self keep img = Inl e"
  by (auto simp: MultiAxisAttention_forward_def Let_def bindE_def
      MultiAxisAttention_project_map_object split: sum.splits)

lemma MultiAxisAttention_asserts_square:
  assumes "shape img = [b, c, s, s]" and "maa_block_size self = k" and "0 < k"
  shows "MultiAxisAttention_asserts self img = py_assert (s div k = k)"
  using assms
  by (simp add: MultiAxisAttention_asserts_def shape_index_def bindE_simps py_assert_def
      floordiv_def)

lemma MultiAxisAttention_asserts_not_square:
  assumes "shape img = [b, c, h_img, w_img]" and "h_img \<noteq> w_img"
  shows "MultiAxisAttention_forward rt self keep img = Inl AssertionError"
  using assms
  by (simp add: MultiAxisAttention_forward_def MultiAxisAttention_asserts_def shape_index_def
      bindE_simps py_assert_def)

lemma Unfold_forward_tiles:
  assumes "shape img = [b, c, s, s]" and "0 < c" and "0 < k" and "k \<le> s"
  shows "\<exists>blocks. Unfold_forward \<lparr>kernel_size = k, stride = k\<rparr> img = Inr blocks \<and>
           shape blocks = [b, c * k * k, (s div k) * (s div k)] \<and>
           (\<forall>ib ch i j bi bj. i < k \<and> j < k \<and> bi < s div k \<and> bj < s div k \<longrightarrow>
              elem blocks [ib, ch * k * k + i * k + j, bi * (s div k) + bj]
                = elem img [ib, ch, bi * k + i, bj * k + j])"
proof -
  have l: "(s - k) div k + 1 = s div k"
    using assms(3,4) by (simp add: le_div_geq)
  have r: "(ch * k * k + i * k + j) div (k * k) = ch"
          "(ch * k * k + i * k + j) mod (k * k) = i * k + j"
          "(i * k + j) div k = i" "(ch * k * k + i * k + j) mod k = j"
    if "i < k" "j < k" for ch i j
  proof -
    have "i * k + j < k * k"
    proof -
      have "i * k + j < i * k + k" using that by simp
      also have "\<dots> = (Suc i) * k" by simp
      also have "\<dots> \<le> k * k" using that by (metis Suc_leI mult_le_mono1)
      finally show ?thesis .
    qed
    then have lt: "i * k + j < k * k" by simp
    have kk: "k * k \<noteq> 0" using that by auto
    have e: "ch * k * k + i * k + j = (i * k + j) + ch * (k * k)" by (simp add: algebra_simps)
    show "(ch * k * k + i * k + j) div (k * k) = ch"
      unfolding e using lt kk by simp
    show "(ch * k * k + i * k + j) mod (k * k) = i * k + j"
      unfolding e using lt kk by simp
    show "(i * k + j) div k = i" using that by simp
    have "ch * k * k + i * k + j = j + (ch * k + i) * k" by (simp add: algebra_simps)
    then show "(ch * k * k + i * k + j) mod k = j" using that by simp
  qed
  have c: "(bi * (s div k) + bj) div (s div k) = bi" "(bi * (s div k) + bj) mod (s div k) = bj"
    if "bj < s div k" for bi bj
    using that by simp_all
  show ?thesis
    using assms l
    by (simp add: Unfold_forward_def Let_def r c del: One_nat_def)
qed

lemma reference_MultiAxisAttention:
  "MultiAxisAttention_init reference_runtime '''' 4 4 4 0 =
     Inr \<lparr>maa_blocker = \<lparr>kernel_size = 4, stride = 4\<rparr>,
          maa_nhead = 4, maa_nchannels = 4, maa_block_size = 4, maa_scale = 1,
          maa_to_qkv = Linear_init reference_runtime ''to_qkv.weight'' 4 12,
          maa_to_o = Linear_init reference_runtime ''to_o.weight'' 4 4,
          maa_flash = False, maa_dropout = None,
          maa_attn_dropout = Some \<lparr>drop_p = 0, drop_training = True\<rparr>,
          maa_training = True\<rparr>"
  by (simp add: MultiAxisAttention_init_def bindE_simps floordiv_def pow_neg_half_def
      Dropout_init_def hasattr_F_def reference_runtime_def)

text \<open>
  C1. An image of side 17 with at least one channel is not rejected by a module of block
  size 4: since \<open>17 div 4 = 4\<close> both assertions pass, the blocker runs and cuts the image
  into 16 windows of 4 by 4 pixels (leaving the last row and column out), and the call
  then raises TypeError, not AssertionError, when the projection receives the map object.
\<close>

theorem MultiAxisAttention_forward_side_17_block_4:
  assumes "MultiAxisAttention_init rt name nchannels 4 nhead dropout = Inr self"
      and "shape img = [b, c, 17, 17]" and "0 < c"
  shows "MultiAxisAttention_asserts self img = Inr () \<and>
         (\<exists>blocks. Unfold_forward (maa_blocker self) img = Inr blocks \<and>
                    shape blocks = [b, c * 4 * 4, 16]) \<and>
         MultiAxisAttention_forward rt self keep img = Inl TypeError"
proof -
  note f = MultiAxisAttention_init_fields[OF assms(1)]
  have a: "MultiAxisAttention_asserts self img = Inr ()"
    using MultiAxisAttention_asserts_square[OF assms(2) f(1)] by (simp add: py_assert_def)
  from Unfold_forward_tiles[OF assms(2,3), of 4]
  obtain blocks where u: "Unfold_forward \<lparr>kernel_size = 4, stride = 4\<rparr> img = Inr blocks"
    and s: "shape blocks = [b, c * 4 * 4, 16]"
    by auto
  have "MultiAxisAttention_forward rt self keep img = Inl TypeError"
    by (simp add: MultiAxisAttention_forward_def a f(2) u bindE_simps
        MultiAxisAttention_project_map_object)
  with a u s f(2) show ?thesis by simp
qed

theorem MultiAxisAttention_forward_side_17_block_4_example:
  "\<exists>self. MultiAxisAttention_init reference_runtime '''' 4 4 4 0 = Inr self \<and>
     shape (full [1, 4, 17, 17] 1) = [1, 4, 17, 17] \<and> (0::nat) < 4 \<and>
     MultiAxisAttention_asserts self (full [1, 4, 17, 17] 1) = Inr () \<and>
     (\<exists>blocks. Unfold_forward (maa_blocker self) (full [1, 4, 17, 17] 1) = Inr blocks \<and>
                shape blocks = [1, 64, 16]) \<and>
     MultiAxisAttention_forward reference_runtime self (\<lambda>idx. True) (full [1, 4, 17, 17] 1)
       = Inl TypeError"
proof -
  obtain self where s: "MultiAxisAttention_init reference_runtime '''' 4 4 4 0 = Inr self"
    using reference_MultiAxisAttention by blast
  have sh: "shape (full [1, 4, 17, 17] 1) = [1, 4, 17, 17]" by (simp add: full_def)
  have c: "(0::nat) < 4" by simp
  from MultiAxisAttention_forward_side_17_block_4[OF s sh c, where keep="\<lambda>idx. True"] s sh
  show ?thesis by auto
qed

text \<open>
  C2, as the claim states it, fails: an image of shape \<open>(1, 4, 8, 8)\<close> with block size 4
  and 4 heads is rejected by the second assertion (\<open>8 div 4 = 2\<close>).
\<close>

theorem MultiAxisAttention_forward_rejects_side_8_block_4:
  "MultiAxisAttention_init reference_runtime '''' 4 4 4 0 =
     Inr \<lparr>maa_blocker = \<lparr>kernel_size = 4, stride = 4\<rparr>,
          maa_nhead = 4, maa_nchannels = 4, maa_block_size = 4, maa_scale = 1,
          maa_to_qkv = Linear_init reference_runtime ''to_qkv.weight'' 4 12,
          maa_to_o = Linear_init reference_runtime ''to_o.weight'' 4 4,
          maa_flash = False, maa_dropout = None,
          maa_attn_dropout = Some \<lparr>drop_p = 0, drop_training = True\<rparr>,
          maa_training = True\<rparr> \<and>
   MultiAxisAttention_forward reference_runtime
        \<lparr>maa_blocker = \<lparr>kernel_size = 4, stride = 4\<rparr>,
          maa_nhead = 4, maa_nchannels = 4, maa_block_size = 4, maa_scale = 1,
          maa_to_qkv = Linear_init reference_runtime ''to_qkv.weight'' 4 12,
          maa_to_o = Linear_init reference_runtime ''to_o.weight'' 4 4,
          maa_flash = False, maa_dropout = None,
          maa_attn_dropout = Some \<lparr>drop_p = 0, drop_training = True\<rparr>,
          maa_training = True\<rparr>
        (\<lambda>idx. True) (full [1, 4, 8, 8] 1) = Inl AssertionError"
  by (simp add: reference_MultiAxisAttention MultiAxisAttention_forward_def
      MultiAxisAttention_asserts_def shape_index_def full_def bindE_simps py_assert_def floordiv_def)

text \<open>
  C2, amended. For every square image of side \<open>s\<close> with at least one channel and every
  block size \<open>k > 0\<close> such that \<open>k\<close> divides \<open>s\<close> and \<open>s div k = k\<close> (what the second
  assertion asks), both assertions pass and the blocker partitions the image into
  \<open>n = (s div k) * (s div k)\<close> tiles of \<open>p = k * k\<close> pixels for each channel: every pixel
  \<open>(y, x)\<close> of channel \<open>ch\<close> is the entry at offset \<open>(y mod k, x mod k)\<close> of the tile
  \<open>(y div k, x div k)\<close>; every entry \<open>(ch * k * k + i * k + j, bi * (s div k) + bj)\<close> of the
  result is the pixel \<open>(bi * k + i, bj * k + j)\<close> of the image; and that pixel lies in no
  other tile and at no other offset.
\<close>

theorem MultiAxisAttention_blocking:
  assumes "MultiAxisAttention_init rt name nchannels k nhead dropout = Inr self"
      and "0 < c" and "0 < k" and "k dvd s" and "s div k = k"
      and "shape img = [b, c, s, s]"
  shows "MultiAxisAttention_asserts self img = Inr () \<and>
         (\<exists>blocks. Unfold_forward (maa_blocker self) img = Inr blocks \<and>
            shape blocks = [b, c * k * k, (s div k) * (s div k)] \<and>
            (\<forall>ib ch y x. y < s \<and> x < s \<longrightarrow>
               y mod k < k \<and> x mod k < k \<and> y div k < s div k \<and> x div k < s div k \<and>
               elem img [ib, ch, y, x]
                 = elem blocks [ib, ch * k * k + (y mod k) * k + x mod k,
                                (y div k) * (s div k) + x div k]) \<and>
            (\<forall>ib ch i j bi bj. i < k \<and> j < k \<and> bi < s div k \<and> bj < s div k \<longrightarrow>
               bi * k + i < s \<and> bj * k + j < s \<and>
               (bi * k + i) div k = bi \<and> (bi * k + i) mod k = i \<and>
               (bj * k + j) div k = bj \<and> (bj * k + j) mod k = j \<and>
               elem blocks [ib, ch * k * k + i * k + j, bi * (s div k) + bj]
                 = elem img [ib, ch, bi * k + i, bj * k + j]))"
proof -
  note f = MultiAxisAttention_init_fields[OF assms(1)]
  have sk: "s = (s div k) * k" using assms(4) by simp
  have ks: "k \<le> s"
  proof (rule ccontr)
    assume "\<not> k \<le> s"
    then have "s div k = 0" by simp
    with assms(3,5) show False by simp
  qed
  from Unfold_forward_tiles[OF assms(6,2,3) ks]
  obtain blocks where u: "Unfold_forward \<lparr>kernel_size = k, stride = k\<rparr> img = Inr blocks"
    and sb: "shape blocks = [b, c * k * k, (s div k) * (s div k)]"
    and t: "\<And>ib ch i j bi bj. i < k \<Longrightarrow> j < k \<Longrightarrow> bi < s div k \<Longrightarrow> bj < s div k \<Longrightarrow>
              elem blocks [ib, ch * k * k + i * k + j, bi * (s div k) + bj]
                = elem img [ib, ch, bi * k + i, bj * k + j]"
    by blast
  have inside: "y div k < s div k" if "y < s" for y
  proof -
    have "y < (s div k) * k" using that sk by simp
    then show ?thesis using assms(3) by (simp add: less_mult_imp_div_less)
  qed
  have cover: "elem img [ib, ch, y, x]
                 = elem blocks [ib, ch * k * k + (y mod k) * k + x mod k,
                                (y div k) * (s div k) + x div k]"
    if "y < s" "x < s" for ib ch y x
    using t[of "y mod k" "x mod k" "y div k" "x div k" ib ch] inside[OF that(1)] inside[OF that(2)]
      assms(3)
    by simp
  have bound: "bi * k + i < s" if "i < k" "bi < s div k" for i bi
  proof -
    have "bi * k + i < bi * k + k" using that by simp
    also have "\<dots> = Suc bi * k" by simp
    also have "\<dots> \<le> (s div k) * k" using that by (metis Suc_leI mult_le_mono1)
    also have "\<dots> = s" using sk by simp
    finally show ?thesis .
  qed
  have a: "MultiAxisAttention_asserts self img = Inr ()"
    using MultiAxisAttention_asserts_square[OF assms(6) f(1) assms(3)] assms(5)
    by (simp add: py_assert_def)
  have p1: "\<forall>ib ch y x. y < s \<and> x < s \<longrightarrow>
               y mod k < k \<and> x mod k < k \<and> y div k < s div k \<and> x div k < s div k \<and>
               elem img [ib, ch, y, x]
                 = elem blocks [ib, ch * k * k + (y mod k) * k + x mod k,
                                (y div k) * (s div k) + x div k]"
    using cover inside assms(3) by simp
  have p2: "\<forall>ib ch i j bi bj. i < k \<and> j < k \<and> bi < s div k \<and> bj < s div k \<longrightarrow>
               bi * k + i < s \<and> bj * k + j < s \<and>
               (bi * k + i) div k = bi \<and> (bi * k + i) mod k = i \<and>
               (bj * k + j) div k = bj \<and> (bj * k + j) mod k = j \<and>
               elem blocks [ib, ch * k * k + i * k + j, bi * (s div k) + bj]
                 = elem img [ib, ch, bi * k + i, bj * k + j]"
    using t bound by simp
  have u': "Unfold_forward (maa_blocker self) img = Inr blocks"
    using u by (simp add: f(2))
  show ?thesis
    by (intro conjI exI[of _ blocks]) (rule a u' sb p1 p2)+
qed

theorem MultiAxisAttention_blocking_example:
  "\<exists>self. MultiAxisAttention_init reference_runtime '''' 4 4 4 0 = Inr self \<and>
     (0::nat) < 4 \<and> (4::nat) dvd 16 \<and> (16::nat) div 4 = 4 \<and>
     shape (full [1, 4, 16, 16] 1) = [1, 4, 16, 16] \<and>
     MultiAxisAttention_asserts self (full [1, 4, 16, 16] 1) = Inr () \<and>
     (\<exists>blocks. Unfold_forward (maa_blocker self) (full [1, 4, 16, 16] 1) = Inr blocks \<and>
                shape blocks = [1, 64, 16])"
proof -
  obtain self where s: "MultiAxisAttention_init reference_runtime '''' 4 4 4 0 = Inr self"
    using reference_MultiAxisAttention by blast
  have sh: "shape (full [1, 4, 16, 16] 1) = [1, 4, 16, 16]" by (simp add: full_def)
  have k: "(0::nat) < 4" and dv: "(4::nat) dvd 16" and d: "(16::nat) div 4 = 4" by simp_all
  from MultiAxisAttention_blocking[OF s k k dv d sh] s sh
  show ?thesis by auto
qed

text \<open>
  C4. No query, key or value is produced, scaled or not: for every image that passes the
  assertions and the blocker, what the projection receives from \<^verbatim>\<open>forward\<close> is the map
  object, \<^verbatim>\<open>self.to_qkv\<close> raises TypeError on it, and so does \<^verbatim>\<open>forward\<close>, before any
  attention is computed.
\<close>

theorem MultiAxisAttention_forward_projection_raises:
  assumes "MultiAxisAttention_init rt name nchannels k nhead dropout = Inr self"
      and "0 < c" and "0 < k" and "s div k = k" and "shape img = [b, c, s, s]"
  shows "\<exists>blocks. Unfold_forward (maa_blocker self) img = Inr blocks \<and>
           MultiAxisAttention_project self (PyMap blocks) = Inl TypeError \<and>
           MultiAxisAttention_forward rt self keep img = Inl TypeError"
proof -
  note f = MultiAxisAttention_init_fields[OF assms(1)]
  have ks: "k \<le> s"
  proof (rule ccontr)
    assume "\<not> k \<le> s"
    then have "s div k = 0" by simp
    with assms(3,4) show False by simp
  qed
  from Unfold_forward_tiles[OF assms(5,2,3) ks]
  obtain blocks where u: "Unfold_forward \<lparr>kernel_size = k, stride = k\<rparr> img = Inr blocks"
    by blast
  have a: "MultiAxisAttention_asserts self img = Inr ()"
    using MultiAxisAttention_asserts_square[OF assms(5) f(1) assms(3)] assms(4)
    by (simp add: py_assert_def)
  have "MultiAxisAttention_forward rt self keep img = Inl TypeError"
    by (simp add: MultiAxisAttention_forward_def a f(2) u bindE_simps
        MultiAxisAttention_project_map_object)
  with u show ?thesis
    by (simp add: f(2) MultiAxisAttention_project_map_object)
qed

theorem MultiAxisAttention_forward_projection_raises_example:
  "\<exists>self blocks.
     MultiAxisAttention_init reference_runtime '''' 4 4 4 0 = Inr self \<and>
     (0::nat) < 4 \<and> (16::nat) div 4 = 4 \<and>
     shape (full [1, 4, 16, 16] 1) = [1, 4, 16, 16] \<and>
     Unfold_forward (maa_blocker self) (full [1, 4, 16, 16] 1) = Inr blocks \<and>
     MultiAxisAttention_project self (PyMap blocks) = Inl TypeError \<and>
     MultiAxisAttention_forward reference_runtime self (\<lambda>idx. True) (full [1, 4, 16, 16] 1)
       = Inl TypeError"
proof -
  obtain self where s: "MultiAxisAttention_init reference_runtime '''' 4 4 4 0 = Inr self"
    using reference_MultiAxisAttention by blast
  have sh: "shape (full [1, 4, 16, 16] 1) = [1, 4, 16, 16]" by (simp add: full_def)
  have k: "(0::nat) < 4" and d: "(16::nat) div 4 = 4" by simp_all
  from MultiAxisAttention_forward_projection_raises[OF s k k d sh, where keep="\<lambda>idx. True"] s sh
  show ?thesis by auto
qed

text \<open>
  Behind that raise, the two projection lines, given a tensor of blocks, would scale the
  keys and the values as they scale the queries, and the explicit attention branch would
  drop weights whatever the mode. No call of \<^verbatim>\<open>forward\<close> reaches either.
\<close>

lemma chunk_3_multiple:
  assumes s: "shape t = pre @ [3 * m]"
  shows "chunk t 3 = Inr [slice_last t 0 m, slice_last t m m, slice_last t (2 * m) m]"
proof (cases "m = 0")
  case True
  have r: "replicate 3 x = [x, x, x]" for x :: tensor
    by (simp add: numeral_3_eq_3)
  from s True show ?thesis by (simp add: chunk_def Let_def r)
next
  case False
  have n: "(4 * m - Suc 0) div m = 3"
  proof -
    obtain j where j: "m = Suc j" using False by (cases m) auto
    have "4 * m - Suc 0 = j + m * 3" using j by simp
    moreover have "j < m" using j by simp
    ultimately show ?thesis by simp
  qed
  have "[0..<Suc (Suc (Suc 0))] = [0, Suc 0, Suc (Suc 0)]" by simp
  moreover have "(3::nat) = Suc (Suc (Suc 0))" "(2::nat) = Suc (Suc 0)" by simp_all
  ultimately have u: "[0..<3] = [0, Suc 0, 2]" by presburger
  have d: "Suc (Suc (3 * m)) div 3 = m" by presburger
  show ?thesis using s False
    by (simp add: chunk_def Let_def d n u del: upt_Suc)
qed

lemma MultiAxisAttention_project_of_a_tensor:
  assumes "MultiAxisAttention_init rt name nchannels block_size nhead dropout = Inr self"
      and "shape x = [b, n, p, nchannels]"
      and "nchannels mod nhead = 0"
  shows "\<exists>qkv q k v.
           Linear_forward (maa_to_qkv self) (PyTensor x) = Inr qkv \<and>
           MultiAxisAttention_project self (PyTensor x) = Inr (q, k, v) \<and>
           (\<forall>ib ih jn ip ic.
              elem q [ib, ih, jn, ip, ic]
                = elem qkv [ib, jn, ip, ih * (nchannels div nhead) + ic] * maa_scale self \<and>
              elem k [ib, ih, jn, ip, ic]
                = elem qkv [ib, jn, ip, ih * (nchannels div nhead) + ic + nchannels] * maa_scale self \<and>
              elem v [ib, ih, jn, ip, ic]
                = elem qkv [ib, jn, ip, ih * (nchannels div nhead) + ic + 2 * nchannels] * maa_scale self)"
proof -
  note f = MultiAxisAttention_init_fields[OF assms(1)]
  obtain qkv where l: "Linear_forward (maa_to_qkv self) (PyTensor x) = Inr qkv"
    and sq: "shape qkv = [b, n, p] @ [3 * nchannels]"
    using assms(2) by (simp add: f(6) Linear_forward_def Linear_init_def F_linear_def)
  have sl: "shape (slice_last qkv off nchannels) = [b, n, p, nchannels]" for off
    using sq by (simp add: slice_last_def)
  have sh: "scaled_heads self (slice_last qkv off nchannels) =
      Inr (scalar_mul \<lparr>shape = [b, nhead, n, p, nchannels div nhead],
             elem = (\<lambda>idx. case idx of
                        [ib, ih, jn, ip, ic] \<Rightarrow>
                          elem (slice_last qkv off nchannels) [ib, jn, ip, ih * (nchannels div nhead) + ic]
                      | _ \<Rightarrow> 0)\<rparr> (maa_scale self))" for off
    using f(8) assms(3)
    by (simp add: scaled_heads_def rearrange_bnp_hc_def sl f(3) Let_def bindE_simps)
  have "MultiAxisAttention_project self (PyTensor x) =
          Inr (scalar_mul \<lparr>shape = [b, nhead, n, p, nchannels div nhead],
             elem = (\<lambda>idx. case idx of
                        [ib, ih, jn, ip, ic] \<Rightarrow>
                          elem (slice_last qkv 0 nchannels) [ib, jn, ip, ih * (nchannels div nhead) + ic]
                      | _ \<Rightarrow> 0)\<rparr> (maa_scale self),
               scalar_mul \<lparr>shape = [b, nhead, n, p, nchannels div nhead],
             elem = (\<lambda>idx. case idx of
                        [ib, ih, jn, ip, ic] \<Rightarrow>
                          elem (slice_last qkv nchannels nchannels) [ib, jn, ip, ih * (nchannels div nhead) + ic]
                      | _ \<Rightarrow> 0)\<rparr> (maa_scale self),
               scalar_mul \<lparr>shape = [b, nhead, n, p, nchannels div nhead],
             elem = (\<lambda>idx. case idx of
                        [ib, ih, jn, ip, ic] \<Rightarrow>
                          elem (slice_last qkv (2 * nchannels) nchannels) [ib, jn, ip, ih * (nchannels div nhead) + ic]
                      | _ \<Rightarrow> 0)\<rparr> (maa_scale self))"
    by (simp add: MultiAxisAttention_project_def l chunk_3_multiple[OF sq] unpack3_def sh bindE_simps)
  with l show ?thesis
    by (simp add: scalar_mul_def tmap_def slice_last_def)
qed

lemma MultiAxisAttention_attention_ignores_mode:
  assumes "\<not> maa_flash self"
  shows "MultiAxisAttention_attention rt (MultiAxisAttention_eval self) keep q k v =
         MultiAxisAttention_attention rt self keep q k v"
  using assms by (simp add: MultiAxisAttention_attention_def MultiAxisAttention_eval_def)

lemma MultiAxisAttention_attention_one_element:
  assumes "\<not> maa_flash self"
  shows "\<exists>y. MultiAxisAttention_attention rt self keep (full [1, 1, 1, 1, 1] 1)
           (full [1, 1, 1, 1, 1] 1) (full [1, 1, 1, 1, 1] 1) = Inr y \<and>
           elem y [0, 0, 0, 0, 0] = (if keep [0, 0, 0, 0, 0] then 2 else 0)"
  using assms
  by (simp add: MultiAxisAttention_attention_def einsum_bhnpc_bhnqc_def full_def
      broadcast_shapes_def contraction_def broadcast_index_def softmax_def F_dropout_def
      einsum_bhnpq_bhnqc_def bindE_simps)

lemma MultiAxisAttention_forward_raise_ignores_draws:
  "\<exists>e. \<forall>keep. MultiAxisAttention_forward rt self keep img = Inl e"
proof -
  have "MultiAxisAttention_forward rt self keep img
          = MultiAxisAttention_forward rt self (\<lambda>idx. True) img" for keep
    by (simp add: MultiAxisAttention_forward_def Let_def bindE_simps
        MultiAxisAttention_project_map_object)
  moreover obtain e where "MultiAxisAttention_forward rt self (\<lambda>idx. True) img = Inl e"
    using MultiAxisAttention_forward_never_returns by blast
  ultimately show ?thesis by metis
qed

lemma MultiQueryAttention_forward_raise_ignores_draws:
  assumes "\<not> mqa_flash self" and "''attn_dropoutdropout'' \<notin> set (module_names rt)"
  shows "\<exists>e. \<forall>keep. MultiQueryAttention_forward rt self keep input context = Inl e"
proof -
  note g = MultiQueryAttention_getattr_misspelled[OF assms(2), of self]
  have "MultiQueryAttention_forward rt self keep input context
          = MultiQueryAttention_forward rt self (\<lambda>idx. True) input context" for keep
    by (simp add: MultiQueryAttention_forward_def Let_def bindE_simps assms(1) g)
  moreover have "\<exists>e. MultiQueryAttention_forward rt self (\<lambda>idx. True) input context = Inl e"
    unfolding MultiQueryAttention_forward_def Let_def
    using assms(1) g
    by (auto simp: bindE_def split: sum.splits prod.splits)
  ultimately show ?thesis by metis
qed

text \<open>
  C6. In evaluation mode two calls do not return results, identical or not. Where
  \<^verbatim>\<open>torch.nn.functional\<close> has no attribute \<^verbatim>\<open>scaled_dot_product_attnetion\<close> and
  \<^verbatim>\<open>nn.Module\<close> none named \<^verbatim>\<open>attn_dropoutdropout\<close>, the forward function of every
  constructed MultiQueryAttention put in evaluation mode raises on every input and
  context, and that of every MultiAxisAttention put in evaluation mode raises on every
  image: the same error whatever the generator draws.
\<close>

theorem forward_in_evaluation_mode_never_returns:
  assumes "''scaled_dot_product_attnetion'' \<notin> set (functional_names rt)"
      and "''attn_dropoutdropout'' \<notin> set (module_names rt)"
      and "MultiQueryAttention_init rt name emb_dim nhead dropout = Inr mqa"
  shows "\<not> mqa_training (MultiQueryAttention_eval mqa) \<and>
         (\<exists>e. \<forall>keep. MultiQueryAttention_forward rt (MultiQueryAttention_eval mqa) keep input context
                        = Inl e) \<and>
         \<not> maa_training (MultiAxisAttention_eval maa) \<and>
         (\<exists>e. \<forall>keep. MultiAxisAttention_forward rt (MultiAxisAttention_eval maa) keep img = Inl e)"
proof -
  have "\<not> mqa_flash (MultiQueryAttention_eval mqa)"
    using MultiQueryAttention_init_fields(1)[OF assms(3)] assms(1)
    by (simp add: hasattr_F_def MultiQueryAttention_eval_def)
  from MultiQueryAttention_forward_raise_ignores_draws[OF this assms(2)]
    MultiAxisAttention_forward_raise_ignores_draws
  show ?thesis
    by (simp add: MultiQueryAttention_eval_def MultiAxisAttention_eval_def)
qed

theorem forward_in_evaluation_mode_never_returns_example:
  "''scaled_dot_product_attnetion'' \<notin> set (functional_names reference_runtime) \<and>
   ''attn_dropoutdropout'' \<notin> set (module_names reference_runtime) \<and>
   (\<exists>mqa maa.
      MultiQueryAttention_init reference_runtime '''' 4 2 0 = Inr mqa \<and>
      MultiAxisAttention_init reference_runtime '''' 4 4 4 0 = Inr maa \<and>
      \<not> mqa_training (MultiQueryAttention_eval mqa) \<and>
      (\<exists>e. \<forall>keep. MultiQueryAttention_forward reference_runtime (MultiQueryAttention_eval mqa) keep
                     (full [1, 3, 4] 1) (PyTensor (full [1, 3, 4] 1)) = Inl e) \<and>
      \<not> maa_training (MultiAxisAttention_eval maa) \<and>
      (\<exists>e. \<forall>keep. MultiAxisAttention_forward reference_runtime (MultiAxisAttention_eval maa) keep
                     (full [1, 4, 16, 16] 1) = Inl e))"
proof -
  obtain mqa where m: "MultiQueryAttention_init reference_runtime '''' 4 2 0 = Inr mqa"
    using reference_MultiQueryAttention by blast
  obtain maa where a: "MultiAxisAttention_init reference_runtime '''' 4 4 4 0 = Inr maa"
    using reference_MultiAxisAttention by blast
  from forward_in_evaluation_mode_never_returns[OF reference_runtime_names m,
      of "full [1, 3, 4] 1" "PyTensor (full [1, 3, 4] 1)" maa "full [1, 4, 16, 16] 1"]
    m a reference_runtime_names
  show ?thesis by blast
qed

subsection \<open>The blocks\<close>

lemma mangle_init: "mangle ''MultiAxisTransformerBlock'' ''__init'' = ''_MultiAxisTransformerBlock__init''"
  by (simp add: mangle_def)

text \<open>
  C10. Where \<^verbatim>\<open>nn.Module\<close> has no attribute \<^verbatim>\<open>_MultiAxisTransformerBlock__init\<close>,
  constructing a MultiAxisTransformerBlock raises AttributeError for every argument
  tuple, also for one on which the construction of a sub-module would raise.
\<close>

theorem MultiAxisTransformerBlock_init_raises:
  assumes "''_MultiAxisTransformerBlock__init'' \<notin> set (module_names rt)"
  shows "MultiAxisTransformerBlock_init rt name nchannels block_size nhead dropout
           = Inl AttributeError"
  using assms
  by (simp add: MultiAxisTransformerBlock_init_def super_getattr_def mangle_init bindE_simps)

theorem MultiAxisTransformerBlock_init_raises_example:
  "''_MultiAxisTransformerBlock__init'' \<notin> set (module_names reference_runtime) \<and>
   MultiAxisTransformerBlock_init reference_runtime '''' 4 4 0 0 = Inl AttributeError \<and>
   MultiAxisAttention_init reference_runtime ''self_attn.'' 4 4 0 0 = Inl ZeroDivisionError"
proof -
  have n: "''_MultiAxisTransformerBlock__init'' \<notin> set (module_names reference_runtime)"
    by (simp add: reference_runtime_def)
  have "MultiAxisAttention_init reference_runtime ''self_attn.'' 4 4 0 0 = Inl ZeroDivisionError"
    by (simp add: MultiAxisAttention_init_def floordiv_def bindE_simps)
  with n MultiAxisTransformerBlock_init_raises[OF n, of "''''" 4 4 0 0] show ?thesis by simp
qed

lemma LayerNorm_forward_shape:
  assumes "shape t = pre @ [d]"
  shows "\<exists>n. LayerNorm_forward (LayerNorm_init d) t = Inr n \<and> shape n = shape t"
  using assms by (simp add: LayerNorm_forward_def LayerNorm_init_def Let_def)

lemma EncoderBlock_init_fields:
  assumes "EncoderBlock_init rt name emb_dim nhead dropout = Inr eb"
  shows "\<exists>attn. MultiQueryAttention_init rt (name @ ''self_attn.'') emb_dim nhead dropout = Inr attn \<and>
           enc_ln1 eb = LayerNorm_forward (LayerNorm_init emb_dim) \<and>
           enc_self_attn eb = MultiQueryAttention_forward rt attn"
  using assms
  by (auto simp: EncoderBlock_init_def bindE_def split: sum.splits)

lemma TransformerBlock_init_fields:
  assumes "TransformerBlock_init rt name emb_dim nhead dropout = Inr tb"
  shows "\<exists>attn. MultiQueryAttention_init rt (name @ ''self_attn.'') emb_dim nhead dropout = Inr attn \<and>
           tb_ln1 tb = LayerNorm_forward (LayerNorm_init emb_dim) \<and>
           tb_self_attn tb = MultiQueryAttention_forward rt attn"
  using assms
  by (auto simp: TransformerBlock_init_def bindE_def split: sum.splits)

lemma self_attention_without_context:
  assumes "MultiQueryAttention_init rt name emb_dim nhead dropout = Inr attn"
      and "shape input = pre @ [emb_dim]"
  shows "bindE (LayerNorm_forward (LayerNorm_init emb_dim) input)
           (\<lambda>normed. bindE (MultiQueryAttention_forward rt attn keep normed PyNone) f)
         = Inl TypeError"
proof -
  obtain n where n: "LayerNorm_forward (LayerNorm_init emb_dim) input = Inr n"
    and sn: "shape n = shape input"
    using LayerNorm_forward_shape[OF assms(2)] by blast
  have "MultiQueryAttention_forward rt attn keep n PyNone = Inl TypeError"
    by (rule MultiQueryAttention_forward_None_before_branch[where pre=pre and n=emb_dim])
       (simp_all add: MultiQueryAttention_init_fields(2)[OF assms(1)] Linear_init_def sn assms(2))
  with n show ?thesis by (simp add: bindE_simps)
qed

text \<open>
  C7. Neither block has an output: on every input whose last axis has width \<open>emb_dim\<close>,
  the forward function of every constructed EncoderBlock and of every constructed
  TransformerBlock, with or without a context, raises TypeError in its first statement,
  where the self-attention is called without a context; no residual sum is formed and
  the MLP is not applied.
\<close>

theorem blocks_forward_raise_in_self_attention:
  assumes "EncoderBlock_init rt name emb_dim nhead dropout = Inr eb"
      and "TransformerBlock_init rt name' emb_dim nhead dropout = Inr tb"
      and "shape input = pre @ [emb_dim]"
  shows "EncoderBlock_forward eb gen input = Inl TypeError \<and>
         TransformerBlock_forward tb gen input context = Inl TypeError"
proof -
  from EncoderBlock_init_fields[OF assms(1)] obtain attn where
    a: "MultiQueryAttention_init rt (name @ ''self_attn.'') emb_dim nhead dropout = Inr attn"
    and e: "enc_ln1 eb = LayerNorm_forward (LayerNorm_init emb_dim)"
           "enc_self_attn eb = MultiQueryAttention_forward rt attn"
    by blast
  from TransformerBlock_init_fields[OF assms(2)] obtain attn' where
    a': "MultiQueryAttention_init rt (name' @ ''self_attn.'') emb_dim nhead dropout = Inr attn'"
    and t: "tb_ln1 tb = LayerNorm_forward (LayerNorm_init emb_dim)"
           "tb_self_attn tb = MultiQueryAttention_forward rt attn'"
    by blast
  have "EncoderBlock_forward eb gen input = Inl TypeError"
    unfolding EncoderBlock_forward_def e
    by (rule self_attention_without_context[OF a assms(3)])
  moreover have "TransformerBlock_forward tb gen input context = Inl TypeError"
    unfolding TransformerBlock_forward_def t
    by (rule self_attention_without_context[OF a' assms(3)])
  ultimately show ?thesis by simp
qed

theorem blocks_forward_raise_in_self_attention_example:
  "\<exists>eb tb.
     EncoderBlock_init reference_runtime '''' 4 2 0 = Inr eb \<and>
     TransformerBlock_init reference_runtime '''' 4 2 0 = Inr tb \<and>
     shape (full [1, 3, 4] 1) = [1, 3] @ [4] \<and>
     EncoderBlock_forward eb (\<lambda>i idx. True) (full [1, 3, 4] 1) = Inl TypeError \<and>
     TransformerBlock_forward tb (\<lambda>i idx. True) (full [1, 3, 4] 1) PyNone = Inl TypeError \<and>
     TransformerBlock_forward tb (\<lambda>i idx. True) (full [1, 3, 4] 1) (PyTensor (full [1, 5, 4] 1))
       = Inl TypeError"
proof -
  have m: "\<exists>attn. MultiQueryAttention_init reference_runtime nm 4 2 0 = Inr attn" for nm
    by (simp add: MultiQueryAttention_init_def bindE_simps floordiv_def pow_neg_half_def
        Dropout_init_def)
  obtain eb where eb: "EncoderBlock_init reference_runtime '''' 4 2 0 = Inr eb"
    using m[of "''self_attn.''"] by (auto simp: EncoderBlock_init_def bindE_simps)
  obtain tb where tb: "TransformerBlock_init reference_runtime '''' 4 2 0 = Inr tb"
    using m[of "''self_attn.''"] m[of "''cross_attn.''"]
    by (auto simp: TransformerBlock_init_def bindE_simps)
  have sh: "shape (full [1, 3, 4] 1) = [1, 3] @ [4]" by (simp add: full_def)
  from blocks_forward_raise_in_self_attention[OF eb tb sh, of "\<lambda>i idx. True" PyNone]
       blocks_forward_raise_in_self_attention[OF eb tb sh, of "\<lambda>i idx. True"
         "PyTensor (full [1, 5, 4] 1)"] eb tb sh
  show ?thesis by blast
qed


end
